theory Spec2Isabelle
  imports Main
begin

section \<open>The GitHub registry of ksonnet: URI descriptors, content resolution, cache\<close>

text \<open>
  The development embeds \<^verbatim>\<open>pkg/registry/github.go\<close> (the GitHub registry) and the
  commit-resolution operation of the default GitHub client (\<^verbatim>\<open>pkg/util/github\<close>).
  Go strings are byte strings (\<open>string\<close>); a Go function that returns \<open>(value, error)\<close>
  returns a pair or a sum here, a run-time panic is a result of its own, and the calls the
  code makes on its collaborators (transport, filesystem, callbacks) are recorded in a trace.
\<close>

subsection \<open>The string functions of the Go library that the code calls\<close>

definition HasPrefix :: "string \<Rightarrow> string \<Rightarrow> bool" where
  "HasPrefix s p = (take (length p) s = p)"

definition HasSuffix :: "string \<Rightarrow> string \<Rightarrow> bool" where
  "HasSuffix s p = (length p \<le> length s \<and> drop (length s - length p) s = p)"

definition TrimPrefix :: "string \<Rightarrow> string \<Rightarrow> string" where
  "TrimPrefix s p = (if HasPrefix s p then drop (length p) s else s)"

text \<open>\<open>strings.Split s "/"\<close>: the pieces between the separators, at least one piece.\<close>

fun Split :: "string \<Rightarrow> char \<Rightarrow> string list" where
  "Split [] sep = [[]]"
| "Split (c # cs) sep =
     (if c = sep then [] # Split cs sep
      else (case Split cs sep of [] \<Rightarrow> [[c]] | w # ws \<Rightarrow> (c # w) # ws))"

text \<open>\<open>strings.Join xs "/"\<close>.\<close>

fun Join :: "string list \<Rightarrow> string \<Rightarrow> string" where
  "Join [] sep = []"
| "Join [x] sep = x"
| "Join (x # y # ys) sep = x @ sep @ Join (y # ys) sep"

text \<open>\<open>strings.TrimSpace\<close>, on the ASCII white space (tab, line feed, vertical tab, form
  feed, carriage return, space).\<close>

definition isSpace :: "char \<Rightarrow> bool" where
  "isSpace c = (c \<in> {CHR 0x09, CHR 0x0A, CHR 0x0B, CHR 0x0C, CHR 0x0D, CHR '' ''})"

definition TrimSpace :: "string \<Rightarrow> string" where
  "TrimSpace s = rev (dropWhile isSpace (rev (dropWhile isSpace s)))"

subsection \<open>Errors and panics\<close>

text \<open>
  One constructor for each error the code builds. \<open>Wrapped\<close> is what \<open>errors.Wrapf\<close> and
  \<open>errors.Wrap\<close> of \<^verbatim>\<open>github.com/pkg/errors\<close> build around an error;
  \<open>External\<close> is an error that a collaborator (transport, filesystem, decoder,
  caller-supplied callback) hands back.
\<close>

datatype error =
    ErrNotGitHubURI
  | ErrURLParse string
  | ErrEnterpriseNoRepos string
  | ErrOnlyRefQuery string
  | ErrNoQueryAllowed string
  | ErrMustPointAtRepository string
  | errInvalidURI
  | ErrNoValidRegistry string string string string
  | ErrLibResolvesToFile string string
  | ErrInternalTypeIsDir string
  | ErrInvalidLibrary string
  | ErrLibrarySpecNotFile string
  | ErrNotInitialized string
  | Wrapped error string
  | External string

datatype panic = NilDereference | IndexOutOfRange | SliceBoundsOutOfRange

datatype failure = Err error | Panic panic

type_synonym 'a result = "failure + 'a"

subsection \<open>Slices\<close>

text \<open>\<open>xs[i]\<close> and \<open>xs[lo:hi]\<close> panic out of range.\<close>

definition index :: "'a list \<Rightarrow> nat \<Rightarrow> 'a result" where
  "index xs i = (if i < length xs then Inr (xs ! i) else Inl (Panic IndexOutOfRange))"

definition slice :: "'a list \<Rightarrow> nat \<Rightarrow> nat \<Rightarrow> 'a list result" where
  "slice xs lo hi =
     (if lo \<le> hi \<and> hi \<le> length xs then Inr (take (hi - lo) (drop lo xs))
      else Inl (Panic SliceBoundsOutOfRange))"

definition bind :: "'a result \<Rightarrow> ('a \<Rightarrow> 'b result) \<Rightarrow> 'b result" where
  "bind r f = (case r of Inl e \<Rightarrow> Inl e | Inr x \<Rightarrow> f x)"

subsection \<open>URLs\<close>

text \<open>
  \<open>url.Values\<close> is a map from a key to the list of its values; it is an association list
  here, read through \<open>map_of\<close>, and \<open>len\<close> counts its keys.
  The record \<open>URL\<close> holds the fields of \<open>url.URL\<close> that the code reads; \<open>Query\<close> is what
  the method \<open>Query()\<close> returns.
\<close>

type_synonym Values = "(string \<times> string list) list"

definition len_Values :: "Values \<Rightarrow> nat" where
  "len_Values q = length (remdups (map fst q))"

record URL =
  Scheme :: string
  Host :: string
  Path :: string
  Query :: Values

text \<open>
  \<open>url.Parse\<close> belongs to the Go library. The parser of registry URIs takes it as the
  parameter \<open>urlParse\<close>, so that what is proved of the parser holds for whatever the
  library returns. \<open>url_Parse\<close> below is the library's result on the plain URIs
  \<open>scheme://host/path?query#fragment\<close> (no user information, no percent escapes, no
  \<open>+\<close> in the query), which is all that the concrete examples of this theory need.
\<close>

fun add_value :: "string \<Rightarrow> string \<Rightarrow> Values \<Rightarrow> Values" where
  "add_value k v [] = [(k, [v])]"
| "add_value k v ((k', vs) # q) =
     (if k = k' then (k', vs @ [v]) # q else (k', vs) # add_value k v q)"

definition ParseQuery :: "string \<Rightarrow> Values" where
  "ParseQuery raw =
     foldl (\<lambda>q kv. if kv = [] then q
                    else add_value (takeWhile (\<lambda>c. c \<noteq> CHR ''='') kv)
                                   (drop 1 (dropWhile (\<lambda>c. c \<noteq> CHR ''='') kv)) q)
           [] (Split raw (CHR ''&''))"

definition url_Parse :: "string \<Rightarrow> error + URL" where
  "url_Parse rawURL =
     (let u = takeWhile (\<lambda>c. c \<noteq> CHR ''#'') rawURL;
          scheme = takeWhile (\<lambda>c. c \<noteq> CHR '':'') u;
          rest = drop (length scheme + 1) u;
          hier = takeWhile (\<lambda>c. c \<noteq> CHR ''?'') rest;
          rawQuery = drop 1 (dropWhile (\<lambda>c. c \<noteq> CHR ''?'') rest)
      in if scheme = [] \<or> length u \<le> length scheme \<or> \<not> HasPrefix hier ''//''
         then Inl (ErrURLParse rawURL)
         else Inr \<lparr> Scheme = scheme,
                    Host = takeWhile (\<lambda>c. c \<noteq> CHR ''/'') (drop 2 hier),
                    Path = dropWhile (\<lambda>c. c \<noteq> CHR ''/'') (drop 2 hier),
                    Query = ParseQuery rawQuery \<rparr>)"

subsection \<open>The descriptor of a registry URI\<close>

definition defaultGitHubBranch :: string where
  "defaultGitHubBranch = ''master''"

text \<open>
  Modelled from the spec: the constant \<open>registryYAMLFile\<close> (the manifest filename) is
  declared in a file of the package that is not among the sources; the comments of
  \<^verbatim>\<open>github.go\<close> name the file \<^verbatim>\<open>registry.yaml\<close>.
\<close>

definition registryYAMLFile :: string where
  "registryYAMLFile = ''registry.yaml''"

record hubDescriptor =
  baseURL :: "URL option"
  org :: string
  repo :: string
  refSpec :: string
  regRepoPath :: string
  regSpecRepoPath :: string

text \<open>The index of the first component equal to \<open>"repos"\<close> (the loop of the enterprise
  branch); \<open>None\<close> stands for the initial \<open>baseIndex = -1\<close>.\<close>

fun find_repos :: "string list \<Rightarrow> nat option" where
  "find_repos [] = None"
| "find_repos (n # ns) =
     (if ''repos'' = n then Some 0 else map_option Suc (find_repos ns))"

text \<open>
  The \<open>switch len(queries)\<close> of the enterprise branch: no key gives the empty reference,
  the single key \<open>ref\<close> with a single value gives that value, everything else is an error.
\<close>

definition enterpriseRefSpec :: "string \<Rightarrow> Values \<Rightarrow> string result" where
  "enterpriseRefSpec uri queries =
     (if len_Values queries = 0 then Inr ''''
      else if len_Values queries = 1 then
        (case map_of queries ''ref'' of
           Some [r] \<Rightarrow> Inr r
         | _ \<Rightarrow> Inl (Err (ErrOnlyRefQuery uri)))
      else Inl (Err (ErrOnlyRefQuery uri)))"

text \<open>
  The second half of \<open>parseGitHubURI\<close>, from the check of the number of components on.
  \<open>ref\<close> is the value of \<open>hd.refSpec\<close> on entry.
\<close>

definition parsePaths ::
  "string \<Rightarrow> bool \<Rightarrow> nat \<Rightarrow> URL option \<Rightarrow> string \<Rightarrow> string list \<Rightarrow> hubDescriptor result" where
  "parsePaths uri isEnterprise baseIndex base ref components =
     (if length components < baseIndex + 3 then Inl (Err (ErrMustPointAtRepository uri))
      else
        let hd0 = \<lparr> baseURL = base, org = components ! (baseIndex + 1),
                    repo = components ! (baseIndex + 2), refSpec = ref,
                    regRepoPath = '''', regSpecRepoPath = '''' \<rparr>;
            len = length components
        in if isEnterprise then
             (if len > baseIndex + 4 then
                (if components ! (len - 1) = '''' then
                   bind (slice components (baseIndex + 4) (len - 1)) (\<lambda>p.
                   bind (slice (components[len - 1 := registryYAMLFile]) (baseIndex + 4) len) (\<lambda>sp.
                   Inr (hd0\<lparr> regRepoPath := Join p ''/'', regSpecRepoPath := Join sp ''/'' \<rparr>)))
                 else
                   bind (slice components (baseIndex + 4) len) (\<lambda>p.
                   bind (slice (components @ [registryYAMLFile]) (baseIndex + 4) (len + 1)) (\<lambda>sp.
                   Inr (hd0\<lparr> regRepoPath := Join p ''/'', regSpecRepoPath := Join sp ''/'' \<rparr>))))
              else
                Inr (hd0\<lparr> refSpec := defaultGitHubBranch, regRepoPath := '''',
                          regSpecRepoPath := registryYAMLFile \<rparr>))
           else
             bind (index components (baseIndex + 4)) (\<lambda>r.
             let hd1 = hd0\<lparr> refSpec := r \<rparr> in
             if len > baseIndex + 4 then
               (if components ! (baseIndex + 3) = ''tree'' then
                  (if components ! (len - 1) = '''' then
                     bind (slice components (baseIndex + 5) (len - 1)) (\<lambda>p.
                     bind (slice (components[len - 1 := registryYAMLFile]) (baseIndex + 5) len) (\<lambda>sp.
                     Inr (hd1\<lparr> regRepoPath := Join p ''/'', regSpecRepoPath := Join sp ''/'' \<rparr>)))
                   else
                     bind (slice components (baseIndex + 5) len) (\<lambda>p.
                     bind (slice (components @ [registryYAMLFile]) (baseIndex + 5) (len + 1)) (\<lambda>sp.
                     Inr (hd1\<lparr> regRepoPath := Join p ''/'', regSpecRepoPath := Join sp ''/'' \<rparr>))))
                else if components ! (baseIndex + 3) = ''blob''
                        \<and> components ! (len - 1) = registryYAMLFile then
                  bind (slice components (baseIndex + 5) (len - 1)) (\<lambda>p.
                  bind (slice components (baseIndex + 5) len) (\<lambda>sp.
                  Inr (hd1\<lparr> regRepoPath := Join p ''/'', regSpecRepoPath := Join sp ''/'' \<rparr>)))
                else Inl (Err errInvalidURI))
             else
               Inr (hd1\<lparr> refSpec := defaultGitHubBranch, regRepoPath := '''',
                         regSpecRepoPath := registryYAMLFile \<rparr>)))"

text \<open>
  The first half, from the split of the path on: enterprise detection, the anchor
  \<open>baseIndex\<close>, the base URL and the query parameters. The argument of the debug print
  \<^verbatim>\<open>fmt.Printf("DEBUG: baseURL: %d\n", hd.baseURL.String())\<close> is evaluated before the
  print: \<open>String\<close> reads the fields of its receiver, so it panics on the nil \<open>baseURL\<close>.
  What the debug prints write to the standard output is not modelled.
\<close>

definition parseParsed :: "(string \<Rightarrow> error + URL) \<Rightarrow> string \<Rightarrow> URL \<Rightarrow> hubDescriptor result" where
  "parseParsed urlParse uri parsed =
     (let components = Split (Path parsed) (CHR ''/'');
          isEnterprise = (\<not> HasSuffix (Host parsed) ''github.com'')
      in bind
           (if isEnterprise then
              (case find_repos components of
                 None \<Rightarrow> Inl (Err (ErrEnterpriseNoRepos uri))
               | Some baseIndex \<Rightarrow>
                   let base = (case urlParse (Scheme parsed @ ''://'' @ Host parsed
                                        @ Join (take baseIndex components) ''/'' @ ''/'') of
                                 Inl e \<Rightarrow> None | Inr b \<Rightarrow> Some b)
                   in bind (enterpriseRefSpec uri (Query parsed)) (\<lambda>ref.
                      Inr (baseIndex, base, ref)))
            else
              (if len_Values (Query parsed) \<noteq> 0 then Inl (Err (ErrNoQueryAllowed uri))
               else Inr (0, None, '''')))
           (\<lambda>(baseIndex, base, ref).
              if base = None then Inl (Panic NilDereference)
              else parsePaths uri isEnterprise baseIndex base ref components))"

text \<open>The normalisation at the head of \<open>parseGitHubURI\<close>: the accepted prefixes, and the
  scheme \<open>http://\<close> put before a URI that has none.\<close>

definition normalizeURI :: "string \<Rightarrow> string result" where
  "normalizeURI uri0 =
     (let uri = TrimSpace uri0 in
      if HasPrefix uri ''http://github.'' \<or> HasPrefix uri ''https://github.''
         \<or> HasPrefix uri ''http://www.github.'' \<or> HasPrefix uri ''https://www.github.''
      then Inr uri
      else if HasPrefix uri ''github.'' \<or> HasPrefix uri ''www.github.''
      then Inr (''http://'' @ uri)
      else Inl (Err ErrNotGitHubURI))"

definition parseGitHubURI :: "(string \<Rightarrow> error + URL) \<Rightarrow> string \<Rightarrow> hubDescriptor result" where
  "parseGitHubURI urlParse uri0 =
     bind (normalizeURI uri0)
       (\<lambda>uri. case urlParse uri of
                Inl e \<Rightarrow> Inl (Err e)
              | Inr parsed \<Rightarrow> parseParsed urlParse uri parsed)"

subsection \<open>The collaborators: transport, cache file, callbacks\<close>

text \<open>
  A \<open>context.Context\<close> is either the background context, which has no deadline, or a
  context derived from another one with a timeout (a \<open>time.Duration\<close>, in nanoseconds).
\<close>

datatype ctx = Background | WithTimeout ctx nat

definition Second :: nat where
  "Second = 1000000000"


record Repo =
  Org :: string
  Repo :: string

record ContentSpec =
  cs_Repo :: Repo
  cs_Path :: string
  cs_RefSpec :: string

text \<open>
  An entry of the contents API: its type (\<open>file\<close>, \<open>dir\<close>, \<open>symlink\<close>, \<open>submodule\<close>), its
  repository-root-relative path, and what \<open>GetContent()\<close> returns for it.
\<close>

record RepositoryContent =
  rc_Type :: string
  rc_Path :: string
  rc_Content :: "string \<times> error option"

text \<open>
  Modelled from the spec: the types of the registry inventory (\<open>Spec\<close>, with its
  libraries) are declared in a file of the package that is not among the sources. The
  inventory is an ordered mapping from a library name to a library entry that carries a
  version, plus the revision the inventory was fetched at (\<open>Version\<close>). The entries are
  held by reference, so that the assignment in the loop of \<open>updateLibVersions\<close> is seen
  by the holder of the inventory.
\<close>

record LibraryConfig =
  lib_Version :: string
  lib_Path :: string

record Spec =
  APIVersion :: string
  Kind :: string
  Version :: string
  Libraries :: "(string \<times> LibraryConfig) list"

record parts_Spec =
  parts_Name :: string
  parts_Version :: string


text \<open>
  Every call on a collaborator is an event of the trace. What the collaborator answers
  may depend on the calls made so far, so each answer is a function of the trace before
  the call and of the arguments.
\<close>

datatype event =
    EvLoad string
  | EvCommitSHA1 ctx Repo string
  | EvContents ctx Repo string string
  | EvMkdirAll string
  | EvWriteFile string string
  | EvOnFile string string
  | EvOnDir string
  | EvGetCommitSHA1 ctx string string string string

fun is_fs_mutation :: "event \<Rightarrow> bool" where
  "is_fs_mutation (EvMkdirAll d) = True"
| "is_fs_mutation (EvWriteFile f b) = True"
| "is_fs_mutation e = False"



record env =
  urlParse :: "string \<Rightarrow> error + URL"
  registryCacheRoot :: string
  load :: "event list \<Rightarrow> string \<Rightarrow> Spec option \<times> bool \<times> error option"
  CommitSHA1 :: "event list \<Rightarrow> ctx \<Rightarrow> Repo \<Rightarrow> string \<Rightarrow> string \<times> error option"
  Contents :: "event list \<Rightarrow> ctx \<Rightarrow> Repo \<Rightarrow> string \<Rightarrow> string
                 \<Rightarrow> RepositoryContent option \<times> RepositoryContent list option \<times> error option"
  Unmarshal :: "string \<Rightarrow> error + Spec"
  Marshal :: "Spec \<Rightarrow> error + string"
  parts_Unmarshal :: "string \<Rightarrow> error + parts_Spec"
  MkdirAll :: "event list \<Rightarrow> string \<Rightarrow> error option"
  WriteFile :: "event list \<Rightarrow> string \<Rightarrow> string \<Rightarrow> error option"

text \<open>The result of a call that may panic.\<close>

datatype 'a ret = Return 'a | Panicked panic

subsection \<open>The registry object\<close>

text \<open>
  The methods are called on an object that exists: their checks of a nil receiver are
  left out. The descriptor of the object may be missing (\<open>hdesc gh = None\<close>).
\<close>

record RegistryConfig =
  rc_Name :: string
  rc_Protocol :: string
  rc_URI :: string

record GitHub =
  name :: string
  hdesc :: "hubDescriptor option"
  spec :: RegistryConfig

definition URI :: "GitHub \<Rightarrow> string" where
  "URI gh = rc_URI (spec gh)"

definition Name :: "GitHub \<Rightarrow> string" where
  "Name gh = name gh"

definition RegistrySpecDir :: "GitHub \<Rightarrow> string" where
  "RegistrySpecDir gh = Name gh"

definition hd_Repo :: "hubDescriptor \<Rightarrow> Repo" where
  "hd_Repo d = \<lparr> Org = org d, Repo = repo d \<rparr>"

text \<open>\<open>filepath.Join\<close> of two clean, non-empty elements.\<close>

definition filepath_Join :: "string \<Rightarrow> string \<Rightarrow> string" where
  "filepath_Join a b = a @ ''/'' @ b"

text \<open>
  Modelled from the spec: \<open>registrySpecFilePath\<close> is declared outside the sources; the
  cache file is \<^verbatim>\<open><cache-root>/<registry-name>/<manifest-filename>\<close>.
\<close>

definition registrySpecFilePath :: "env \<Rightarrow> GitHub \<Rightarrow> string" where
  "registrySpecFilePath E gh =
     filepath_Join (filepath_Join (registryCacheRoot E) (Name gh)) registryYAMLFile"

text \<open>\<open>errors.Wrapf\<close>: the wrapped error, and nil when the error is nil.\<close>

definition Wrapf :: "error option \<Rightarrow> string \<Rightarrow> error option" where
  "Wrapf err msg = map_option (\<lambda>e. Wrapped e msg) err"

subsection \<open>Resolving the revision\<close>

text \<open>
  \<open>resolveLatestSHA\<close>: the descriptor is parsed here when the object has none; the
  transport is called with a context that times out after ten seconds.
\<close>

definition resolveLatestSHA ::
  "env \<Rightarrow> GitHub \<Rightarrow> event list \<Rightarrow> ((string \<times> error option) \<times> GitHub \<times> event list) ret" where
  "resolveLatestSHA E gh tr =
     (let resolve = (\<lambda>gh' d.
            let c = WithTimeout Background (10 * Second);
                (sha, err) = CommitSHA1 E tr c (hd_Repo d) (refSpec d);
                tr' = tr @ [EvCommitSHA1 c (hd_Repo d) (refSpec d)]
            in if err \<noteq> None
               then Return (('''', Wrapf err (''unable to find SHA1 for URI: '' @ URI gh')), gh', tr')
               else Return ((sha, None), gh', tr'))
      in case hdesc gh of
           Some d \<Rightarrow> resolve gh d
         | None \<Rightarrow>
             (case parseGitHubURI (urlParse E) (URI gh) of
                Inl (Panic p) \<Rightarrow> Panicked p
              | Inl (Err e) \<Rightarrow>
                  Return (('''', Some (Wrapped e (''unable to parse URI: '' @ URI gh))), gh, tr)
              | Inr d \<Rightarrow> resolve (gh\<lparr> hdesc := Some d \<rparr>) d))"

text \<open>\<open>updateLibVersions\<close>: nothing on nil, else every library gets the version
  (\<open>setLibVersions\<close> is its loop).\<close>

definition setLibVersions :: "Spec \<Rightarrow> string \<Rightarrow> Spec" where
  "setLibVersions s version =
     s\<lparr> Libraries := map (\<lambda>(n, lib). (n, lib\<lparr> lib_Version := version \<rparr>)) (Libraries s) \<rparr>"

definition updateLibVersions :: "Spec option \<Rightarrow> string \<Rightarrow> Spec option" where
  "updateLibVersions sp version =
     (case sp of
        None \<Rightarrow> None
      | Some s \<Rightarrow> Some (setLibVersions s version))"

subsection \<open>Fetching the inventory\<close>

definition fetchRemoteSpec :: "env \<Rightarrow> ContentSpec \<Rightarrow> event list \<Rightarrow> (error + Spec) \<times> event list" where
  "fetchRemoteSpec E cs tr =
     (let c = Background;
          (file, dir, err) = Contents E tr c (cs_Repo cs) (cs_Path cs) (cs_RefSpec cs);
          tr' = tr @ [EvContents c (cs_Repo cs) (cs_Path cs) (cs_RefSpec cs)]
      in case err of
           Some e \<Rightarrow> (Inl e, tr')
         | None \<Rightarrow>
             (case file of
                None \<Rightarrow> (Inl (ErrNoValidRegistry (Org (cs_Repo cs)) (Repo (cs_Repo cs))
                                                  (cs_Path cs) (cs_RefSpec cs)), tr')
              | Some f \<Rightarrow>
                  (case rc_Content f of
                     (registrySpecText, Some e) \<Rightarrow> (Inl e, tr')
                   | (registrySpecText, None) \<Rightarrow>
                       (case Unmarshal E registrySpecText of
                          Inl e \<Rightarrow> (Inl e, tr')
                        | Inr registrySpec \<Rightarrow>
                            (Inr (registrySpec\<lparr> Version := cs_RefSpec cs \<rparr>), tr')))))"

text \<open>
  \<open>FetchRegistrySpec\<close>. The result is the pair that the Go function returns, the object
  (whose descriptor \<open>resolveLatestSHA\<close> may have set) and the trace.
  The permissions passed to \<open>MkdirAll\<close> and \<open>WriteFile\<close> are constants of the host
  application and are left out of the events.
\<close>

definition FetchRegistrySpec ::
  "env \<Rightarrow> GitHub \<Rightarrow> event list \<Rightarrow> ((Spec option \<times> error option) \<times> GitHub \<times> event list) ret" where
  "FetchRegistrySpec E gh tr0 =
     (let registrySpecFile = registrySpecFilePath E gh;
          (registrySpec, exists0, lerr) = load E tr0 registrySpecFile;
          tr1 = tr0 @ [EvLoad registrySpecFile];
          exists = (if lerr \<noteq> None then False else exists0);
          cachedVersion = (case registrySpec of Some s \<Rightarrow> Version s | None \<Rightarrow> '''')
      in case resolveLatestSHA E gh tr1 of
           Panicked p \<Rightarrow> Panicked p
         | Return ((sha, err), gh', tr2) \<Rightarrow>
             if err \<noteq> None \<or> sha = '''' then
               (case hdesc gh' of
                  None \<Rightarrow> Panicked NilDereference
                | Some d \<Rightarrow>
                    let errMsg = Wrapf err (''unable to resolve commit for refspec: '' @ refSpec d)
                    in if registrySpec = None \<or> cachedVersion = ''''
                       then Return ((None, errMsg), gh', tr2)
                       else Return ((updateLibVersions registrySpec (refSpec d), None), gh', tr2))
             else if exists \<and> cachedVersion = sha then
               Return ((updateLibVersions registrySpec sha, None), gh', tr2)
             else
               (case hdesc gh' of
                  None \<Rightarrow> Panicked NilDereference
                | Some d \<Rightarrow>
                    let cs = \<lparr> cs_Repo = hd_Repo d, cs_Path = regSpecRepoPath d, cs_RefSpec = sha \<rparr>
                    in case fetchRemoteSpec E cs tr2 of
                         (Inl e, tr3) \<Rightarrow> Return ((None, Some e), gh', tr3)
                       | (Inr fetched, tr3) \<Rightarrow>
                           (case updateLibVersions (Some fetched) sha of
                              None \<Rightarrow> Panicked NilDereference
                            | Some registrySpec' \<Rightarrow>
                                (case Marshal E registrySpec' of
                                   Inl e \<Rightarrow> Return ((None, Some e), gh', tr3)
                                 | Inr registrySpecBytes \<Rightarrow>
                                     (let registrySpecDir =
                                            filepath_Join (registryCacheRoot E) (RegistrySpecDir gh');
                                          tr4 = tr3 @ [EvMkdirAll registrySpecDir]
                                      in case MkdirAll E tr3 registrySpecDir of
                                           Some e \<Rightarrow> Return ((None, Some e), gh', tr4)
                                         | None \<Rightarrow>
                                             (let tr5 = tr4 @ [EvWriteFile registrySpecFile registrySpecBytes]
                                              in case WriteFile E tr4 registrySpecFile registrySpecBytes of
                                                   Some e \<Rightarrow> Return ((None, Some e), gh', tr5)
                                                 | None \<Rightarrow> Return ((Some registrySpec', None), gh', tr5)))))))"

subsection \<open>Resolving a library\<close>

text \<open>
  A callback is called with the trace and returns its error and the new trace. The
  callbacks of a caller are \<open>call_onFile f\<close> and \<open>call_onDir g\<close>: the call is recorded
  with the path it was given, and the caller's code \<open>f\<close> or \<open>g\<close> decides the error.
\<close>

type_synonym ResolveFile = "string \<Rightarrow> string \<Rightarrow> event list \<Rightarrow> error option \<times> event list"

type_synonym ResolveDirectory = "string \<Rightarrow> event list \<Rightarrow> error option \<times> event list"

definition call_onFile :: "(event list \<Rightarrow> string \<Rightarrow> string \<Rightarrow> error option) \<Rightarrow> ResolveFile" where
  "call_onFile f relPath contents tr = (f tr relPath contents, tr @ [EvOnFile relPath contents])"

definition call_onDir :: "(event list \<Rightarrow> string \<Rightarrow> error option) \<Rightarrow> ResolveDirectory" where
  "call_onDir g relPath tr = (g tr relPath, tr @ [EvOnDir relPath])"

definition rebaseToRoot :: "GitHub \<Rightarrow> string \<Rightarrow> string \<times> error option" where
  "rebaseToRoot gh path =
     (case hdesc gh of
        None \<Rightarrow> ('''', Some (ErrNotInitialized (name gh)))
      | Some d \<Rightarrow>
          let root = regRepoPath d;
              rebasedAbs = TrimPrefix (TrimPrefix path ''/'') root;
              rebased = TrimPrefix rebasedAbs ''/''
          in (rebased, None))"

definition chrootOnFile :: "GitHub \<Rightarrow> ResolveFile \<Rightarrow> ResolveFile" where
  "chrootOnFile gh onFile =
     (\<lambda>relPath contents tr.
        case rebaseToRoot gh relPath of
          (chrootedPath, Some e) \<Rightarrow> (Some (Wrapped e (''chrooting path '' @ relPath)), tr)
        | (chrootedPath, None) \<Rightarrow> onFile chrootedPath contents tr)"

definition chrootOnDir :: "GitHub \<Rightarrow> ResolveDirectory \<Rightarrow> ResolveDirectory" where
  "chrootOnDir gh onDir =
     (\<lambda>relPath tr.
        case rebaseToRoot gh relPath of
          (chrootedPath, Some e) \<Rightarrow> (Some (Wrapped e (''chrooting path '' @ relPath)), tr)
        | (chrootedPath, None) \<Rightarrow> onDir chrootedPath tr)"

text \<open>
  \<open>resolveDir\<close> recurses into every directory that the transport lists, and the transport
  may list directories without end: the recursion depth is bounded by a fuel, and
  \<open>None\<close> is the result of a traversal that is deeper than the fuel.
  \<open>resolveItems\<close> is the loop over the entries of one listing.
  \<open>GetContent()\<close> reads the fields of its receiver: it panics on a nil file.
\<close>

fun resolveDir ::
  "nat \<Rightarrow> env \<Rightarrow> GitHub \<Rightarrow> string \<Rightarrow> string \<Rightarrow> string \<Rightarrow> ResolveFile \<Rightarrow> ResolveDirectory
     \<Rightarrow> event list \<Rightarrow> (error option ret \<times> event list) option"
and resolveItems ::
  "nat \<Rightarrow> env \<Rightarrow> GitHub \<Rightarrow> string \<Rightarrow> string \<Rightarrow> ResolveFile \<Rightarrow> ResolveDirectory
     \<Rightarrow> RepositoryContent list \<Rightarrow> event list \<Rightarrow> (error option ret \<times> event list) option"
where
  "resolveDir 0 E gh libID path version onFile onDir tr = None"
| "resolveDir (Suc n) E gh libID path version onFile onDir tr =
     (case hdesc gh of
        None \<Rightarrow> Some (Panicked NilDereference, tr)
      | Some d \<Rightarrow>
          (case Contents E tr Background (hd_Repo d) path version of
             (file, directory, err) \<Rightarrow>
               let tr' = tr @ [EvContents Background (hd_Repo d) path version]
               in if err \<noteq> None then Some (Return err, tr')
                  else if file \<noteq> None then Some (Return (Some (ErrLibResolvesToFile libID (Name gh))), tr')
                  else resolveItems n E gh libID version onFile onDir
                         (case directory of None \<Rightarrow> [] | Some items \<Rightarrow> items) tr'))"
| "resolveItems n E gh libID version onFile onDir [] tr = Some (Return None, tr)"
| "resolveItems n E gh libID version onFile onDir (item # items) tr =
     (if rc_Type item = ''file'' then
        (case hdesc gh of
           None \<Rightarrow> Some (Panicked NilDereference, tr)
         | Some d \<Rightarrow>
             (case Contents E tr Background (hd_Repo d) (rc_Path item) version of
                (file, directory, err) \<Rightarrow>
                  let tr' = tr @ [EvContents Background (hd_Repo d) (rc_Path item) version]
                  in if err \<noteq> None then Some (Return err, tr')
                     else if directory \<noteq> None
                     then Some (Return (Some (ErrInternalTypeIsDir (rc_Path item))), tr')
                     else
                       (case file of
                          None \<Rightarrow> Some (Panicked NilDereference, tr')
                        | Some f \<Rightarrow>
                            (case rc_Content f of
                               (contents, Some e) \<Rightarrow> Some (Return (Some e), tr')
                             | (contents, None) \<Rightarrow>
                                 (case onFile (rc_Path item) contents tr' of
                                    (Some e, tr'') \<Rightarrow> Some (Return (Some e), tr'')
                                  | (None, tr'') \<Rightarrow>
                                      resolveItems n E gh libID version onFile onDir items tr'')))))
      else if rc_Type item = ''dir'' then
        (case onDir (rc_Path item) tr of
           (Some e, tr') \<Rightarrow> Some (Return (Some e), tr')
         | (None, tr') \<Rightarrow>
             (case resolveDir n E gh libID (rc_Path item) version onFile onDir tr' of
                None \<Rightarrow> None
              | Some (Panicked p, tr'') \<Rightarrow> Some (Panicked p, tr'')
              | Some (Return (Some e), tr'') \<Rightarrow> Some (Return (Some e), tr'')
              | Some (Return None, tr'') \<Rightarrow>
                  resolveItems n E gh libID version onFile onDir items tr''))
      else if rc_Type item = ''symlink'' then
        resolveItems n E gh libID version onFile onDir items tr
      else if rc_Type item = ''submodule'' then
        Some (Return (Some (ErrInvalidLibrary libID)), tr)
      else resolveItems n E gh libID version onFile onDir items tr)"





subsection \<open>The default client\<close>

text \<open>
  \<open>CommitSHA1\<close> of the default client. The upstream call
  \<open>Repositories.GetCommitSHA1(ctx, org, repo, ref, "")\<close> is the parameter \<open>api\<close>, an
  answer that may depend on the calls made so far; the call is recorded in the trace.
\<close>

definition defaultGitHub_CommitSHA1 ::
  "(event list \<Rightarrow> ctx \<Rightarrow> string \<Rightarrow> string \<Rightarrow> string \<Rightarrow> string \<Rightarrow> string \<times> error option)
     \<Rightarrow> ctx \<Rightarrow> Repo \<Rightarrow> string \<Rightarrow> event list \<Rightarrow> (string \<times> error option) \<times> event list" where
  "defaultGitHub_CommitSHA1 api c r refSpec0 tr =
     (let refSpec1 = (if refSpec0 = '''' then ''master'' else refSpec0)
      in (api tr c (Org r) (Repo r) refSpec1 '''',
          tr @ [EvGetCommitSHA1 c (Org r) (Repo r) refSpec1 '''']))"

subsection \<open>A registry and collaborators to run the operations on\<close>

text \<open>
  The enterprise registry \<^verbatim>\<open>https://github.my-company.com/api/v3/repos/my-org/ksonnet-parts/contents/incubator?ref=dev\<close>
  with one library in its inventory, a transport that answers every request, and a
  filesystem with no cache file that accepts every write.
\<close>

definition ex_hd :: hubDescriptor where
  "ex_hd = \<lparr> baseURL = Some \<lparr> Scheme = ''https'', Host = ''github.my-company.com'',
                                Path = ''/api/v3/'', Query = [] \<rparr>,
             org = ''my-org'', repo = ''ksonnet-parts'', refSpec = ''dev'',
             regRepoPath = ''incubator'', regSpecRepoPath = ''incubator/registry.yaml'' \<rparr>"

definition ex_gh :: GitHub where
  "ex_gh = \<lparr> name = ''incubator'', hdesc = Some ex_hd,
             spec = \<lparr> rc_Name = ''incubator'', rc_Protocol = ''github'',
                      rc_URI = ''https://github.my-company.com/api/v3/repos/my-org/ksonnet-parts/contents/incubator?ref=dev'' \<rparr> \<rparr>"

definition ex_spec :: Spec where
  "ex_spec = \<lparr> APIVersion = ''0.1.0'', Kind = ''ksonnet.io/registry'', Version = ''old'',
               Libraries = [(''redis'', \<lparr> lib_Version = ''1.0.0'', lib_Path = ''redis'' \<rparr>)] \<rparr>"

definition ex_file :: "string \<Rightarrow> RepositoryContent" where
  "ex_file p = \<lparr> rc_Type = ''file'', rc_Path = p, rc_Content = (''text'', None) \<rparr>"

definition ex_env :: env where
  "ex_env = \<lparr> urlParse = url_Parse,
              registryCacheRoot = ''/app/.ksonnet/registries'',
              load = (\<lambda>tr p. (None, False, None)),
              CommitSHA1 = (\<lambda>tr c r ref. (''0f3a9c'', None)),
              Contents = (\<lambda>tr c r p ref. (Some (ex_file p), None, None)),
              Unmarshal = (\<lambda>text. Inr ex_spec),
              Marshal = (\<lambda>s. Inr ''bytes''),
              parts_Unmarshal = (\<lambda>text. Inr \<lparr> parts_Name = ''redis'', parts_Version = ''1.0.0'' \<rparr>),
              MkdirAll = (\<lambda>tr p. None),
              WriteFile = (\<lambda>tr p b. None) \<rparr>"

text \<open>
  The same registry with a cache file of an older revision. The transport delivers the
  manifest of the revision \<^verbatim>\<open>0f3a9c\<close>, which lists two libraries, the decoder reads only
  that text, and the serialisation of an inventory lists its libraries with their
  versions.
\<close>

definition ex_fresh :: Spec where
  "ex_fresh = \<lparr> APIVersion = ''0.1.0'', Kind = ''ksonnet.io/registry'', Version = '''',
                Libraries = [(''redis'', \<lparr> lib_Version = ''1.0.0'', lib_Path = ''redis'' \<rparr>),
                             (''nginx'', \<lparr> lib_Version = ''2.3.1'', lib_Path = ''nginx'' \<rparr>)] \<rparr>"

definition ex_stale_env :: env where
  "ex_stale_env =
     ex_env\<lparr> load := (\<lambda>tr p. if p = ''/app/.ksonnet/registries/incubator/registry.yaml''
                              then (Some ex_spec, True, None) else (None, False, None)),
             Contents := (\<lambda>tr c r p ref.
                if p = ''incubator/registry.yaml'' \<and> ref = ''0f3a9c''
                then (Some \<lparr> rc_Type = ''file'', rc_Path = p, rc_Content = (''fresh'', None) \<rparr>,
                      None, None)
                else (None, None, Some (External ''not found''))),
             Unmarshal := (\<lambda>text. if text = ''fresh'' then Inr ex_fresh
                                   else Inl (External ''not an inventory'')),
             Marshal := (\<lambda>s. Inr (Join (map (\<lambda>(n, lib). n @ ''@'' @ lib_Version lib) (Libraries s))
                                      '','')) \<rparr>"

subsection \<open>A traversal that reaches a submodule\<close>

text \<open>
  \<open>reaches_submodule \<dots> n items tr tr'\<close>: the loop over \<open>items\<close>, started with the trace
  \<open>tr\<close>, comes to an entry of type \<open>submodule\<close>, in this listing or in the listing of a
  directory below it, after it has processed every entry before it at every level
  with no error; \<open>tr'\<close> is the trace at that entry. The entries \<open>post\<close> that follow at
  each level are arbitrary.
\<close>

inductive reaches_submodule ::
  "env \<Rightarrow> GitHub \<Rightarrow> string \<Rightarrow> string \<Rightarrow> ResolveFile \<Rightarrow> ResolveDirectory
     \<Rightarrow> nat \<Rightarrow> RepositoryContent list \<Rightarrow> event list \<Rightarrow> event list \<Rightarrow> bool"
  for E :: env and gh :: GitHub and libID :: string and version :: string
    and onFile :: ResolveFile and onDir :: ResolveDirectory
where
  here:
    "resolveItems n E gh libID version onFile onDir pre tr = Some (Return None, tr1)
     \<Longrightarrow> rc_Type item = ''submodule''
     \<Longrightarrow> reaches_submodule E gh libID version onFile onDir n (pre @ item # post) tr tr1"
| below:
    "resolveItems (Suc m) E gh libID version onFile onDir pre tr = Some (Return None, tr1)
     \<Longrightarrow> rc_Type item = ''dir''
     \<Longrightarrow> onDir (rc_Path item) tr1 = (None, tr2)
     \<Longrightarrow> hdesc gh = Some d
     \<Longrightarrow> Contents E tr2 Background (hd_Repo d) (rc_Path item) version = (None, Some sub, None)
     \<Longrightarrow> reaches_submodule E gh libID version onFile onDir m sub
           (tr2 @ [EvContents Background (hd_Repo d) (rc_Path item) version]) tr3
     \<Longrightarrow> reaches_submodule E gh libID version onFile onDir (Suc m) (pre @ item # post) tr tr3"

text \<open>
  A library \<^verbatim>\<open>redis\<close> of the example registry: a file, a directory that holds a symlink,
  a submodule and a file, and a last file.
\<close>

definition ex_entry :: "string \<Rightarrow> string \<Rightarrow> RepositoryContent" where
  "ex_entry t p = \<lparr> rc_Type = t, rc_Path = p, rc_Content = ('''', None) \<rparr>"

definition ex_tree :: "string \<Rightarrow> RepositoryContent option \<times> RepositoryContent list option \<times> error option" where
  "ex_tree p =
     (if p = ''incubator/redis'' then
        (None, Some [ex_entry ''file'' ''incubator/redis/parts.yaml'',
                     ex_entry ''dir'' ''incubator/redis/vendor'',
                     ex_entry ''file'' ''incubator/redis/README.md''], None)
      else if p = ''incubator/redis/vendor'' then
        (None, Some [ex_entry ''symlink'' ''incubator/redis/vendor/link'',
                     ex_entry ''submodule'' ''incubator/redis/vendor/lib'',
                     ex_entry ''file'' ''incubator/redis/vendor/notes.txt''], None)
      else (Some (ex_file p), None, None))"

definition ex_tree_env :: env where
  "ex_tree_env = ex_env\<lparr> Contents := (\<lambda>tr c r p ref. ex_tree p) \<rparr>"

text \<open>The callbacks of a caller that accepts every file and every directory.\<close>

definition ex_onFile :: ResolveFile where
  "ex_onFile = call_onFile (\<lambda>tr p c. None)"

definition ex_onDir :: ResolveDirectory where
  "ex_onDir = call_onDir (\<lambda>tr p. None)"

subsection \<open>A library to resolve\<close>



subsection \<open>The contexts of the network calls\<close>





section \<open>Properties\<close>

lemmas parse_defs =
  parseGitHubURI_def normalizeURI_def parseParsed_def parsePaths_def enterpriseRefSpec_def
  url_Parse_def ParseQuery_def len_Values_def bind_def index_def slice_def
  HasPrefix_def HasSuffix_def TrimSpace_def isSpace_def registryYAMLFile_def
  defaultGitHubBranch_def

subsection \<open>The default client resolves the empty reference as \<open>master\<close>\<close>

text \<open>
  C10. \<open>CommitSHA1\<close> of the default client with the empty reference is the call with the
  reference \<open>master\<close>: same answer, same upstream call. Whatever the reference, the one
  that reaches the upstream API is not empty, and for the empty reference it is the
  literal \<open>master\<close>, whatever the default branch of the repository is.
\<close>

theorem CommitSHA1_empty_ref_is_master:
  "defaultGitHub_CommitSHA1 api c r '''' tr = defaultGitHub_CommitSHA1 api c r ''master'' tr
   \<and> defaultGitHub_CommitSHA1 api c r '''' tr
       = (api tr c (Org r) (Repo r) ''master'' '''',
          tr @ [EvGetCommitSHA1 c (Org r) (Repo r) ''master'' ''''])
   \<and> (\<exists>ref'. ref' \<noteq> ''''
         \<and> defaultGitHub_CommitSHA1 api c r ref tr
             = (api tr c (Org r) (Repo r) ref' '''',
                tr @ [EvGetCommitSHA1 c (Org r) (Repo r) ref' '''']))"
proof (cases "ref = ''''")
  case True
  then show ?thesis
    by (auto simp add: defaultGitHub_CommitSHA1_def Let_def intro!: exI [of _ "''master''"])
next
  case False
  then show ?thesis
    by (auto simp add: defaultGitHub_CommitSHA1_def Let_def)
qed

subsection \<open>Public URIs\<close>

text \<open>
  Every public URI that passes the check of the query parameters stops at the debug print
  of the base URL, which is nil for a public URI.
\<close>

lemma parseParsed_public_panics:
  assumes "HasSuffix (Host parsed) ''github.com''" and "len_Values (Query parsed) = 0"
  shows "parseParsed up uri parsed = Inl (Panic NilDereference)"
  using assms by (simp add: parseParsed_def bind_def)

text \<open>
  C1. The root URI \<^verbatim>\<open>github.com/ksonnet/parts\<close> of a public repository does not give a
  descriptor: \<open>parseGitHubURI\<close> panics on it, at the debug print of the nil base URL.
  The second half of the function, entered with the three components of this URI, panics
  too: it reads \<open>components[baseIndex+4]\<close> before it tests the number of components.
\<close>

theorem parseGitHubURI_public_root_panics:
  "parseGitHubURI url_Parse ''github.com/ksonnet/parts'' = Inl (Panic NilDereference)
   \<and> url_Parse ''http://github.com/ksonnet/parts''
       = Inr \<lparr> Scheme = ''http'', Host = ''github.com'', Path = ''/ksonnet/parts'', Query = [] \<rparr>
   \<and> parsePaths ''http://github.com/ksonnet/parts'' False 0 None ''''
         (Split ''/ksonnet/parts'' (CHR ''/'')) = Inl (Panic IndexOutOfRange)"
  by (simp add: parse_defs)

subsection \<open>Fetching the inventory\<close>

lemmas run_defs =
  FetchRegistrySpec_def resolveLatestSHA_def fetchRemoteSpec_def updateLibVersions_def
  setLibVersions_def registrySpecFilePath_def filepath_Join_def Name_def RegistrySpecDir_def
  URI_def hd_Repo_def Wrapf_def registryYAMLFile_def

lemmas ex_defs = ex_env_def ex_gh_def ex_hd_def ex_spec_def ex_file_def

lemma resolveLatestSHA_ok:
  assumes "resolveLatestSHA E gh tr = Return ((sha, None), gh', tr')"
  shows "\<exists>d. hdesc gh' = Some d \<and> name gh' = name gh \<and> spec gh' = spec gh
       \<and> tr' = tr @ [EvCommitSHA1 (WithTimeout Background (10 * Second)) (hd_Repo d) (refSpec d)]
       \<and> CommitSHA1 E tr (WithTimeout Background (10 * Second)) (hd_Repo d) (refSpec d) = (sha, None)"
  using assms
  by (auto simp add: resolveLatestSHA_def Let_def Wrapf_def
        split: option.splits sum.splits failure.splits prod.splits if_splits)


lemma fetchRemoteSpec_trace:
  "snd (fetchRemoteSpec E cs tr)
     = tr @ [EvContents Background (cs_Repo cs) (cs_Path cs) (cs_RefSpec cs)]"
  by (simp add: fetchRemoteSpec_def Let_def split: prod.splits option.splits sum.splits)

text \<open>
  The path of \<open>FetchRegistrySpec\<close> once the revision is resolved to \<open>sha\<close> and the cache
  is absent or stamped with another revision.
\<close>

lemma FetchRegistrySpec_fetch_path:
  assumes ld: "load E tr0 (registrySpecFilePath E gh) = (cached, ex, lerr)"
    and res: "resolveLatestSHA E gh (tr0 @ [EvLoad (registrySpecFilePath E gh)])
                = Return ((sha, None), gh', tr2)"
    and sha: "sha \<noteq> ''''"
    and stale: "\<not> (ex \<and> lerr = None) \<or> (case cached of Some s \<Rightarrow> Version s | None \<Rightarrow> '''') \<noteq> sha"
    and d: "hdesc gh' = Some d"
  shows "FetchRegistrySpec E gh tr0 =
     (case fetchRemoteSpec E \<lparr> cs_Repo = hd_Repo d, cs_Path = regSpecRepoPath d, cs_RefSpec = sha \<rparr> tr2 of
        (Inl e, tr3) \<Rightarrow> Return ((None, Some e), gh', tr3)
      | (Inr fetched, tr3) \<Rightarrow>
          (case Marshal E (setLibVersions fetched sha) of
             Inl e \<Rightarrow> Return ((None, Some e), gh', tr3)
           | Inr bytes \<Rightarrow>
               (case MkdirAll E tr3 (filepath_Join (registryCacheRoot E) (RegistrySpecDir gh')) of
                  Some e \<Rightarrow> Return ((None, Some e), gh',
                              tr3 @ [EvMkdirAll (filepath_Join (registryCacheRoot E) (RegistrySpecDir gh'))])
                | None \<Rightarrow>
                    (case WriteFile E (tr3 @ [EvMkdirAll (filepath_Join (registryCacheRoot E) (RegistrySpecDir gh'))])
                            (registrySpecFilePath E gh) bytes of
                       Some e \<Rightarrow> Return ((None, Some e), gh',
                                   tr3 @ [EvMkdirAll (filepath_Join (registryCacheRoot E) (RegistrySpecDir gh')),
                                          EvWriteFile (registrySpecFilePath E gh) bytes])
                     | None \<Rightarrow> Return ((Some (setLibVersions fetched sha), None), gh',
                                   tr3 @ [EvMkdirAll (filepath_Join (registryCacheRoot E) (RegistrySpecDir gh')),
                                          EvWriteFile (registrySpecFilePath E gh) bytes])))))"
  using ld res sha stale d
  unfolding FetchRegistrySpec_def
  by (auto simp add: Let_def updateLibVersions_def split: prod.splits option.splits sum.splits)

text \<open>
  C3. When the revision resolves to a non-empty \<open>sha\<close> (the answer of the transport to
  the resolution of the configured reference) and the cache is absent or stamped with
  another revision, \<open>FetchRegistrySpec\<close> returns (it does not panic) and its next call is
  the fetch of the manifest path at \<open>sha\<close>. It returns either an error with no inventory
  or, with no error, the inventory \<open>s\<close> made from what the transport delivered: the
  transport answered the fetch with a file, the decoder read the inventory \<open>u\<close> from the
  text of that file, and \<open>s\<close> is \<open>u\<close> with its revision set to \<open>sha\<close> and the version of
  every library set to \<open>sha\<close>, the names, the order and the other fields of the libraries
  being those of \<open>u\<close>. The bytes written to the cache file are the serialisation of \<open>s\<close>.
  The inventory is returned exactly when the fetch, the decoding, the serialisation, the
  creation of the directory and the write of the file all succeed.
\<close>

theorem FetchRegistrySpec_stale_fetches_fresh:
  assumes ld: "load E tr0 (registrySpecFilePath E gh) = (cached, ex, lerr)"
    and res: "resolveLatestSHA E gh (tr0 @ [EvLoad (registrySpecFilePath E gh)])
                = Return ((sha, None), gh', tr2)"
    and sha: "sha \<noteq> ''''"
    and stale: "\<not> (ex \<and> lerr = None) \<or> (case cached of Some s \<Rightarrow> Version s | None \<Rightarrow> '''') \<noteq> sha"
  shows "\<exists>d r tr'.
           hdesc gh' = Some d
         \<and> tr2 = tr0 @ [EvLoad (registrySpecFilePath E gh),
                        EvCommitSHA1 (WithTimeout Background (10 * Second)) (hd_Repo d) (refSpec d)]
         \<and> CommitSHA1 E (tr0 @ [EvLoad (registrySpecFilePath E gh)])
              (WithTimeout Background (10 * Second)) (hd_Repo d) (refSpec d) = (sha, None)
         \<and> FetchRegistrySpec E gh tr0 = Return (r, gh', tr')
         \<and> take (Suc (length tr2)) tr'
             = tr2 @ [EvContents Background (hd_Repo d) (regSpecRepoPath d) sha]
         \<and> (case r of
              (Some s, err) \<Rightarrow>
                err = None \<and> Version s = sha
                \<and> list_all (\<lambda>(n, lib). lib_Version lib = sha) (Libraries s)
                \<and> (\<exists>f dir text u bytes.
                      Contents E tr2 Background (hd_Repo d) (regSpecRepoPath d) sha
                        = (Some f, dir, None)
                    \<and> rc_Content f = (text, None)
                    \<and> Unmarshal E text = Inr u
                    \<and> s = u\<lparr> Version := sha,
                             Libraries := map (\<lambda>(n, lib). (n, lib\<lparr> lib_Version := sha \<rparr>))
                                              (Libraries u) \<rparr>
                    \<and> map fst (Libraries s) = map fst (Libraries u)
                    \<and> Marshal E s = Inr bytes
                    \<and> tr' = tr2 @ [EvContents Background (hd_Repo d) (regSpecRepoPath d) sha,
                                   EvMkdirAll (filepath_Join (registryCacheRoot E) (RegistrySpecDir gh')),
                                   EvWriteFile (registrySpecFilePath E gh) bytes])
            | (None, err) \<Rightarrow> err \<noteq> None)
         \<and> ((fst r \<noteq> None) =
              (\<exists>f dir text u bytes.
                 Contents E tr2 Background (hd_Repo d) (regSpecRepoPath d) sha = (Some f, dir, None)
               \<and> rc_Content f = (text, None)
               \<and> Unmarshal E text = Inr u
               \<and> Marshal E (u\<lparr> Version := sha,
                               Libraries := map (\<lambda>(n, lib). (n, lib\<lparr> lib_Version := sha \<rparr>))
                                                (Libraries u) \<rparr>) = Inr bytes
               \<and> MkdirAll E (tr2 @ [EvContents Background (hd_Repo d) (regSpecRepoPath d) sha])
                    (filepath_Join (registryCacheRoot E) (RegistrySpecDir gh')) = None
               \<and> WriteFile E (tr2 @ [EvContents Background (hd_Repo d) (regSpecRepoPath d) sha,
                                     EvMkdirAll (filepath_Join (registryCacheRoot E) (RegistrySpecDir gh'))])
                    (registrySpecFilePath E gh) bytes = None))"
proof -
  from resolveLatestSHA_ok [OF res] obtain d where d: "hdesc gh' = Some d"
    and tr2: "tr2 = tr0 @ [EvLoad (registrySpecFilePath E gh),
                           EvCommitSHA1 (WithTimeout Background (10 * Second)) (hd_Repo d) (refSpec d)]"
    and cm: "CommitSHA1 E (tr0 @ [EvLoad (registrySpecFilePath E gh)])
               (WithTimeout Background (10 * Second)) (hd_Repo d) (refSpec d) = (sha, None)"
    by auto
  let ?cs = "\<lparr> cs_Repo = hd_Repo d, cs_Path = regSpecRepoPath d, cs_RefSpec = sha \<rparr>"
  let ?ev = "EvContents Background (hd_Repo d) (regSpecRepoPath d) sha"
  let ?dir = "filepath_Join (registryCacheRoot E) (RegistrySpecDir gh')"
  let ?stamp = "\<lambda>u. u\<lparr> Version := sha,
                        Libraries := map (\<lambda>(n, lib). (n, lib\<lparr> lib_Version := sha \<rparr>)) (Libraries u) \<rparr>"
  obtain fl dr er where cn: "Contents E tr2 Background (hd_Repo d) (regSpecRepoPath d) sha = (fl, dr, er)"
    by (cases "Contents E tr2 Background (hd_Repo d) (regSpecRepoPath d) sha")
  note path = FetchRegistrySpec_fetch_path [OF ld res sha stale d]
  have fail: ?thesis
    if f: "fetchRemoteSpec E ?cs tr2 = (Inl e, tr2 @ [?ev])"
      and no: "\<not> (\<exists>f text u. fl = Some f \<and> er = None \<and> rc_Content f = (text, None)
                              \<and> Unmarshal E text = Inr u)" for e
  proof -
    have run: "FetchRegistrySpec E gh tr0 = Return ((None, Some e), gh', tr2 @ [?ev])"
      by (simp add: path f)
    show ?thesis
      apply (rule exI [of _ d])
      apply (rule exI [of _ "(None, Some e)"])
      apply (rule exI [of _ "tr2 @ [?ev]"])
      using d tr2 cm run no cn
      apply simp
      apply blast
      done
  qed
  show ?thesis
  proof (cases er)
    case (Some e)
    with cn have "fetchRemoteSpec E ?cs tr2 = (Inl e, tr2 @ [?ev])"
      by (simp add: fetchRemoteSpec_def Let_def)
    then show ?thesis
      by (rule fail) (simp add: Some)
  next
    case None
    note er = this
    show ?thesis
    proof (cases fl)
      case None
      with cn er have "fetchRemoteSpec E ?cs tr2
          = (Inl (ErrNoValidRegistry (Org (hd_Repo d)) (Repo (hd_Repo d)) (regSpecRepoPath d) sha),
             tr2 @ [?ev])"
        by (simp add: fetchRemoteSpec_def Let_def)
      then show ?thesis
        by (rule fail) (simp add: None)
    next
      case (Some f)
      note fl = this
      obtain body ce where rc: "rc_Content f = (body, ce)"
        by (cases "rc_Content f")
      show ?thesis
      proof (cases ce)
        case (Some e)
        with cn er fl rc have "fetchRemoteSpec E ?cs tr2 = (Inl e, tr2 @ [?ev])"
          by (simp add: fetchRemoteSpec_def Let_def)
        then show ?thesis
          by (rule fail) (simp add: fl rc Some)
      next
        case None
        note ce = this
        show ?thesis
        proof (cases "Unmarshal E body")
          case (Inl e)
          with cn er fl rc ce have "fetchRemoteSpec E ?cs tr2 = (Inl e, tr2 @ [?ev])"
            by (simp add: fetchRemoteSpec_def Let_def)
          then show ?thesis
            by (rule fail) (simp add: fl rc ce Inl)
        next
          case (Inr u)
          with cn er fl rc ce
          have f: "fetchRemoteSpec E ?cs tr2 = (Inr (u\<lparr> Version := sha \<rparr>), tr2 @ [?ev])"
            by (simp add: fetchRemoteSpec_def Let_def)
          have st: "setLibVersions (u\<lparr> Version := sha \<rparr>) sha = ?stamp u"
            by (simp add: setLibVersions_def)
          have all: "list_all (\<lambda>(n, lib). lib_Version lib = sha) (Libraries (?stamp u))"
            by (simp add: list_all_iff split_beta)
          have names: "map fst (Libraries (?stamp u)) = map fst (Libraries u)"
            by (simp add: split_beta)
          show ?thesis
          proof (cases "Marshal E (?stamp u)")
            case (Inl e)
            then have run: "FetchRegistrySpec E gh tr0 = Return ((None, Some e), gh', tr2 @ [?ev])"
              by (simp add: path f st)
            show ?thesis
              apply (rule exI [of _ d])
              apply (rule exI [of _ "(None, Some e)"])
              apply (rule exI [of _ "tr2 @ [?ev]"])
              using d tr2 cm run cn er fl rc ce Inr Inl
              apply simp
              done
          next
            case (Inr bytes)
            note mb = this
            show ?thesis
            proof (cases "MkdirAll E (tr2 @ [?ev]) ?dir")
              case (Some e)
              then have run: "FetchRegistrySpec E gh tr0
                                = Return ((None, Some e), gh', tr2 @ [?ev, EvMkdirAll ?dir])"
                by (simp add: path f st mb)
              show ?thesis
                apply (rule exI [of _ d])
                apply (rule exI [of _ "(None, Some e)"])
                apply (rule exI [of _ "tr2 @ [?ev, EvMkdirAll ?dir]"])
                using d tr2 cm run cn er fl rc ce \<open>Unmarshal E body = Inr u\<close> mb Some
                apply simp
                done
            next
              case None
              note mk = this
              show ?thesis
              proof (cases "WriteFile E (tr2 @ [?ev, EvMkdirAll ?dir]) (registrySpecFilePath E gh) bytes")
                case (Some e)
                then have run: "FetchRegistrySpec E gh tr0
                    = Return ((None, Some e), gh',
                        tr2 @ [?ev, EvMkdirAll ?dir, EvWriteFile (registrySpecFilePath E gh) bytes])"
                  using mk by (simp add: path f st mb)
                show ?thesis
                  apply (rule exI [of _ d])
                  apply (rule exI [of _ "(None, Some e)"])
                  apply (rule exI [of _ "tr2 @ [?ev, EvMkdirAll ?dir,
                                               EvWriteFile (registrySpecFilePath E gh) bytes]"])
                  using d tr2 cm run cn er fl rc ce \<open>Unmarshal E body = Inr u\<close> mb mk Some
                  apply simp
                  done
              next
                case None
                then have run: "FetchRegistrySpec E gh tr0
                    = Return ((Some (?stamp u), None), gh',
                        tr2 @ [?ev, EvMkdirAll ?dir, EvWriteFile (registrySpecFilePath E gh) bytes])"
                  using mk by (simp add: path f st mb)
                show ?thesis
                  apply (rule exI [of _ d])
                  apply (rule exI [of _ "(Some (?stamp u), None)"])
                  apply (rule exI [of _ "tr2 @ [?ev, EvMkdirAll ?dir,
                                               EvWriteFile (registrySpecFilePath E gh) bytes]"])
                  using d tr2 cm run cn er fl rc ce \<open>Unmarshal E body = Inr u\<close> mb mk None all names
                  apply simp
                  done
              qed
            qed
          qed
        qed
      qed
    qed
  qed
qed

theorem FetchRegistrySpec_stale_fetches_fresh_witness:
  "FetchRegistrySpec ex_stale_env ex_gh []
     = Return ((Some \<lparr> APIVersion = ''0.1.0'', Kind = ''ksonnet.io/registry'', Version = ''0f3a9c'',
                       Libraries = [(''redis'', \<lparr> lib_Version = ''0f3a9c'', lib_Path = ''redis'' \<rparr>),
                                    (''nginx'', \<lparr> lib_Version = ''0f3a9c'', lib_Path = ''nginx'' \<rparr>)] \<rparr>,
                None),
               ex_gh,
               [EvLoad ''/app/.ksonnet/registries/incubator/registry.yaml'',
                EvCommitSHA1 (WithTimeout Background (10 * Second))
                   \<lparr> Org = ''my-org'', Repo = ''ksonnet-parts'' \<rparr> ''dev'',
                EvContents Background \<lparr> Org = ''my-org'', Repo = ''ksonnet-parts'' \<rparr>
                   ''incubator/registry.yaml'' ''0f3a9c'',
                EvMkdirAll ''/app/.ksonnet/registries/incubator'',
                EvWriteFile ''/app/.ksonnet/registries/incubator/registry.yaml''
                   ''redis@0f3a9c,nginx@0f3a9c''])
   \<and> load ex_stale_env [] ''/app/.ksonnet/registries/incubator/registry.yaml''
       = (Some \<lparr> APIVersion = ''0.1.0'', Kind = ''ksonnet.io/registry'', Version = ''old'',
                  Libraries = [(''redis'', \<lparr> lib_Version = ''1.0.0'', lib_Path = ''redis'' \<rparr>)] \<rparr>,
          True, None)"
proof (rule conjI)
  let ?E = "ex_stale_env"
  let ?tr2 = "[EvLoad (registrySpecFilePath ?E ex_gh),
               EvCommitSHA1 (WithTimeout Background (10 * Second)) (hd_Repo ex_hd) ''dev'']"
  have ld: "load ?E [] (registrySpecFilePath ?E ex_gh) = (Some ex_spec, True, None)"
    by (simp add: ex_stale_env_def ex_env_def ex_gh_def registrySpecFilePath_def filepath_Join_def
          Name_def registryYAMLFile_def)
  have res: "resolveLatestSHA ?E ex_gh ([] @ [EvLoad (registrySpecFilePath ?E ex_gh)])
               = Return ((''0f3a9c'', None), ex_gh, ?tr2)"
    by (simp add: resolveLatestSHA_def ex_stale_env_def ex_defs Let_def)
  have sha: "''0f3a9c'' \<noteq> ''''"
    by simp
  have stale: "\<not> (True \<and> (None :: error option) = None)
                 \<or> (case Some ex_spec of Some s \<Rightarrow> Version s | None \<Rightarrow> '''') \<noteq> ''0f3a9c''"
    by (simp add: ex_spec_def)
  from FetchRegistrySpec_stale_fetches_fresh [OF ld res sha stale]
  obtain d r tr' where
    d: "hdesc ex_gh = Some d"
    and run: "FetchRegistrySpec ?E ex_gh [] = Return (r, ex_gh, tr')"
    and shape: "case r of
              (Some s, err) \<Rightarrow>
                err = None \<and> Version s = ''0f3a9c''
                \<and> list_all (\<lambda>(n, lib). lib_Version lib = ''0f3a9c'') (Libraries s)
                \<and> (\<exists>f dir text u bytes.
                      Contents ?E ?tr2 Background (hd_Repo d) (regSpecRepoPath d) ''0f3a9c''
                        = (Some f, dir, None)
                    \<and> rc_Content f = (text, None)
                    \<and> Unmarshal ?E text = Inr u
                    \<and> s = u\<lparr> Version := ''0f3a9c'',
                             Libraries := map (\<lambda>(n, lib). (n, lib\<lparr> lib_Version := ''0f3a9c'' \<rparr>))
                                              (Libraries u) \<rparr>
                    \<and> map fst (Libraries s) = map fst (Libraries u)
                    \<and> Marshal ?E s = Inr bytes
                    \<and> tr' = ?tr2 @ [EvContents Background (hd_Repo d) (regSpecRepoPath d) ''0f3a9c'',
                                   EvMkdirAll (filepath_Join (registryCacheRoot ?E) (RegistrySpecDir ex_gh)),
                                   EvWriteFile (registrySpecFilePath ?E ex_gh) bytes])
            | (None, err) \<Rightarrow> err \<noteq> None"
    and written: "(fst r \<noteq> None) =
              (\<exists>f dir text u bytes.
                 Contents ?E ?tr2 Background (hd_Repo d) (regSpecRepoPath d) ''0f3a9c'' = (Some f, dir, None)
               \<and> rc_Content f = (text, None)
               \<and> Unmarshal ?E text = Inr u
               \<and> Marshal ?E (u\<lparr> Version := ''0f3a9c'',
                               Libraries := map (\<lambda>(n, lib). (n, lib\<lparr> lib_Version := ''0f3a9c'' \<rparr>))
                                                (Libraries u) \<rparr>) = Inr bytes
               \<and> MkdirAll ?E (?tr2 @ [EvContents Background (hd_Repo d) (regSpecRepoPath d) ''0f3a9c''])
                    (filepath_Join (registryCacheRoot ?E) (RegistrySpecDir ex_gh)) = None
               \<and> WriteFile ?E (?tr2 @ [EvContents Background (hd_Repo d) (regSpecRepoPath d) ''0f3a9c'',
                                     EvMkdirAll (filepath_Join (registryCacheRoot ?E) (RegistrySpecDir ex_gh))])
                    (registrySpecFilePath ?E ex_gh) bytes = None)"
    by blast
  have dd: "d = ex_hd"
    using d by (simp add: ex_gh_def)
  have cn: "Contents ?E ?tr2 Background (hd_Repo ex_hd) (regSpecRepoPath ex_hd) ''0f3a9c''
              = (Some \<lparr> rc_Type = ''file'', rc_Path = ''incubator/registry.yaml'',
                        rc_Content = (''fresh'', None) \<rparr>, None, None)"
    by (simp add: ex_stale_env_def ex_env_def ex_hd_def)
  have um: "Unmarshal ?E body = Inr u \<longleftrightarrow> body = ''fresh'' \<and> u = ex_fresh" for body u
    by (auto simp add: ex_stale_env_def ex_env_def)
  have io: "MkdirAll ?E t p = None" "WriteFile ?E t p b = None" for t p b
    by (simp_all add: ex_stale_env_def ex_env_def)
  have ms: "Marshal ?E s = Inr (Join (map (\<lambda>(n, lib). n @ ''@'' @ lib_Version lib) (Libraries s)) '','')" for s
    by (simp add: ex_stale_env_def ex_env_def)
  have "fst r \<noteq> None"
    unfolding written dd by (simp add: cn um io ms)
  then obtain s err where r: "r = (Some s, err)"
    by (cases r) auto
  from shape have
    "err = None
     \<and> s = \<lparr> APIVersion = ''0.1.0'', Kind = ''ksonnet.io/registry'', Version = ''0f3a9c'',
             Libraries = [(''redis'', \<lparr> lib_Version = ''0f3a9c'', lib_Path = ''redis'' \<rparr>),
                          (''nginx'', \<lparr> lib_Version = ''0f3a9c'', lib_Path = ''nginx'' \<rparr>)] \<rparr>
     \<and> tr' = [EvLoad ''/app/.ksonnet/registries/incubator/registry.yaml'',
              EvCommitSHA1 (WithTimeout Background (10 * Second))
                 \<lparr> Org = ''my-org'', Repo = ''ksonnet-parts'' \<rparr> ''dev'',
              EvContents Background \<lparr> Org = ''my-org'', Repo = ''ksonnet-parts'' \<rparr>
                 ''incubator/registry.yaml'' ''0f3a9c'',
              EvMkdirAll ''/app/.ksonnet/registries/incubator'',
              EvWriteFile ''/app/.ksonnet/registries/incubator/registry.yaml''
                 ''redis@0f3a9c,nginx@0f3a9c'']"
    unfolding r dd
    by (auto simp add: cn um ms ex_fresh_def registrySpecFilePath_def filepath_Join_def Name_def
          RegistrySpecDir_def registryYAMLFile_def hd_Repo_def ex_hd_def ex_gh_def
          ex_stale_env_def ex_env_def)
  with run r show "FetchRegistrySpec ex_stale_env ex_gh []
     = Return ((Some \<lparr> APIVersion = ''0.1.0'', Kind = ''ksonnet.io/registry'', Version = ''0f3a9c'',
                       Libraries = [(''redis'', \<lparr> lib_Version = ''0f3a9c'', lib_Path = ''redis'' \<rparr>),
                                    (''nginx'', \<lparr> lib_Version = ''0f3a9c'', lib_Path = ''nginx'' \<rparr>)] \<rparr>,
                None),
               ex_gh,
               [EvLoad ''/app/.ksonnet/registries/incubator/registry.yaml'',
                EvCommitSHA1 (WithTimeout Background (10 * Second))
                   \<lparr> Org = ''my-org'', Repo = ''ksonnet-parts'' \<rparr> ''dev'',
                EvContents Background \<lparr> Org = ''my-org'', Repo = ''ksonnet-parts'' \<rparr>
                   ''incubator/registry.yaml'' ''0f3a9c'',
                EvMkdirAll ''/app/.ksonnet/registries/incubator'',
                EvWriteFile ''/app/.ksonnet/registries/incubator/registry.yaml''
                   ''redis@0f3a9c,nginx@0f3a9c''])"
    by simp
next
  show "load ex_stale_env [] ''/app/.ksonnet/registries/incubator/registry.yaml''
       = (Some \<lparr> APIVersion = ''0.1.0'', Kind = ''ksonnet.io/registry'', Version = ''old'',
                  Libraries = [(''redis'', \<lparr> lib_Version = ''1.0.0'', lib_Path = ''redis'' \<rparr>)] \<rparr>,
          True, None)"
    by (simp add: ex_stale_env_def ex_env_def ex_spec_def)
qed

text \<open>
  C7. On the fetch path (revision resolved, cache absent or stale), when the fetch of the
  inventory fails, or its serialisation fails, \<open>FetchRegistrySpec\<close> returns that error
  with no inventory, and the trace has no creation of a directory and no write of a file
  that it did not have before the call. When both succeed, the creation of the cache
  directory and the write of the cache file are the events that follow the fetch.
\<close>

theorem FetchRegistrySpec_failed_fetch_no_fs_mutation:
  assumes ld: "load E tr0 (registrySpecFilePath E gh) = (cached, ex, lerr)"
    and res: "resolveLatestSHA E gh (tr0 @ [EvLoad (registrySpecFilePath E gh)])
                = Return ((sha, None), gh', tr2)"
    and sha: "sha \<noteq> ''''"
    and stale: "\<not> (ex \<and> lerr = None) \<or> (case cached of Some s \<Rightarrow> Version s | None \<Rightarrow> '''') \<noteq> sha"
    and d: "hdesc gh' = Some d"
    and f: "fetchRemoteSpec E \<lparr> cs_Repo = hd_Repo d, cs_Path = regSpecRepoPath d, cs_RefSpec = sha \<rparr> tr2
              = (fr, tr3)"
  shows "filter is_fs_mutation tr3 = filter is_fs_mutation tr0
       \<and> (case fr of
            Inl e \<Rightarrow> FetchRegistrySpec E gh tr0 = Return ((None, Some e), gh', tr3)
          | Inr fetched \<Rightarrow>
              (case Marshal E (setLibVersions fetched sha) of
                 Inl e \<Rightarrow> FetchRegistrySpec E gh tr0 = Return ((None, Some e), gh', tr3)
               | Inr bytes \<Rightarrow>
                   (\<exists>r rest. FetchRegistrySpec E gh tr0
                        = Return (r, gh',
                            tr3 @ EvMkdirAll (filepath_Join (registryCacheRoot E) (RegistrySpecDir gh')) # rest)
                      \<and> (rest = [] \<or> rest = [EvWriteFile (registrySpecFilePath E gh) bytes]))))"
proof -
  from resolveLatestSHA_ok [OF res] d
  have tr2: "tr2 = tr0 @ [EvLoad (registrySpecFilePath E gh),
                          EvCommitSHA1 (WithTimeout Background (10 * Second)) (hd_Repo d) (refSpec d)]"
    by auto
  have tr3: "tr3 = tr2 @ [EvContents Background (hd_Repo d) (regSpecRepoPath d) sha]"
    using fetchRemoteSpec_trace [of E _ tr2] f by (metis ContentSpec.select_convs snd_conv)
  have frame: "filter is_fs_mutation tr3 = filter is_fs_mutation tr0"
    by (simp add: tr2 tr3)
  note path = FetchRegistrySpec_fetch_path [OF ld res sha stale d]
  show ?thesis
    using frame
    by (simp add: path f split: sum.splits option.splits)
qed

theorem FetchRegistrySpec_failed_fetch_no_fs_mutation_witness:
  "FetchRegistrySpec (ex_env\<lparr> Contents := (\<lambda>tr c r p ref. (None, None, Some (External ''timeout''))) \<rparr>)
      ex_gh []
     = Return ((None, Some (External ''timeout'')), ex_gh,
         [EvLoad ''/app/.ksonnet/registries/incubator/registry.yaml'',
          EvCommitSHA1 (WithTimeout Background (10 * Second))
             \<lparr> Org = ''my-org'', Repo = ''ksonnet-parts'' \<rparr> ''dev'',
          EvContents Background \<lparr> Org = ''my-org'', Repo = ''ksonnet-parts'' \<rparr>
             ''incubator/registry.yaml'' ''0f3a9c''])
   \<and> filter is_fs_mutation
         [EvLoad ''/app/.ksonnet/registries/incubator/registry.yaml'',
          EvCommitSHA1 (WithTimeout Background (10 * Second))
             \<lparr> Org = ''my-org'', Repo = ''ksonnet-parts'' \<rparr> ''dev'',
          EvContents Background \<lparr> Org = ''my-org'', Repo = ''ksonnet-parts'' \<rparr>
             ''incubator/registry.yaml'' ''0f3a9c''] = []"
proof -
  let ?E = "ex_env\<lparr> Contents := (\<lambda>tr c r p ref. (None, None, Some (External ''timeout''))) \<rparr>"
  let ?tr2 = "[EvLoad (registrySpecFilePath ?E ex_gh),
               EvCommitSHA1 (WithTimeout Background (10 * Second)) (hd_Repo ex_hd) ''dev'']"
  let ?tr3 = "?tr2 @ [EvContents Background (hd_Repo ex_hd) (regSpecRepoPath ex_hd) ''0f3a9c'']"
  have ld: "load ?E [] (registrySpecFilePath ?E ex_gh) = (None, False, None)"
    by (simp add: ex_defs)
  have res: "resolveLatestSHA ?E ex_gh ([] @ [EvLoad (registrySpecFilePath ?E ex_gh)])
               = Return ((''0f3a9c'', None), ex_gh, ?tr2)"
    by (simp add: resolveLatestSHA_def ex_defs Let_def)
  have stale: "\<not> (False \<and> (None :: error option) = None)
                 \<or> (case (None :: Spec option) of Some s \<Rightarrow> Version s | None \<Rightarrow> '''') \<noteq> ''0f3a9c''"
    by simp
  have sha: "''0f3a9c'' \<noteq> ''''"
    by simp
  have d: "hdesc ex_gh = Some ex_hd"
    by (simp add: ex_gh_def)
  have f: "fetchRemoteSpec ?E \<lparr> cs_Repo = hd_Repo ex_hd, cs_Path = regSpecRepoPath ex_hd,
                                 cs_RefSpec = ''0f3a9c'' \<rparr> ?tr2
             = (Inl (External ''timeout''), ?tr3)"
    by (simp add: fetchRemoteSpec_def ex_defs Let_def)
  from FetchRegistrySpec_failed_fetch_no_fs_mutation [OF ld res sha stale d f]
  show ?thesis
    by (simp add: registrySpecFilePath_def filepath_Join_def Name_def registryYAMLFile_def
          hd_Repo_def ex_defs)
qed

subsection \<open>The fallback on the cache\<close>

text \<open>
  When the resolution of the revision fails or gives the empty identifier, and the
  loaded inventory has a non-empty revision, the inventory is returned with no error and
  every library carries the configured reference.
\<close>

lemma FetchRegistrySpec_fallback_cached:
  assumes ld: "load E tr0 (registrySpecFilePath E gh) = (Some s, ex, lerr)"
    and res: "resolveLatestSHA E gh (tr0 @ [EvLoad (registrySpecFilePath E gh)])
                = Return ((sha, err), gh', tr2)"
    and fail: "err \<noteq> None \<or> sha = ''''"
    and d: "hdesc gh' = Some d"
    and usable: "Version s \<noteq> ''''"
  shows "FetchRegistrySpec E gh tr0 = Return ((Some (setLibVersions s (refSpec d)), None), gh', tr2)"
  using ld res fail d usable
  unfolding FetchRegistrySpec_def
  by (auto simp add: Let_def updateLibVersions_def)

text \<open>
  When the resolution fails with an error and there is no usable inventory, the error
  is returned, wrapped.
\<close>

lemma FetchRegistrySpec_fallback_error:
  assumes ld: "load E tr0 (registrySpecFilePath E gh) = (cached, ex, lerr)"
    and res: "resolveLatestSHA E gh (tr0 @ [EvLoad (registrySpecFilePath E gh)])
                = Return ((sha, Some e), gh', tr2)"
    and d: "hdesc gh' = Some d"
    and unusable: "(case cached of Some s \<Rightarrow> Version s | None \<Rightarrow> '''') = ''''"
  shows "FetchRegistrySpec E gh tr0
           = Return ((None, Some (Wrapped e (''unable to resolve commit for refspec: '' @ refSpec d))),
                     gh', tr2)"
  using ld res d unusable
  unfolding FetchRegistrySpec_def
  by (auto simp add: Let_def Wrapf_def split: option.splits)

text \<open>
  C2. The transport answers the resolution of the revision with the empty identifier and
  no error, and there is no cache file: \<open>FetchRegistrySpec\<close> returns no inventory and no
  error. The error it returns is \<open>errors.Wrapf\<close> of the error of the resolution, and
  \<open>Wrapf\<close> of nil is nil.
\<close>

theorem FetchRegistrySpec_empty_sha_no_cache_returns_nil_nil:
  "FetchRegistrySpec (ex_env\<lparr> CommitSHA1 := (\<lambda>tr c r ref. ('''', None)) \<rparr>) ex_gh []
     = Return ((None, None), ex_gh,
         [EvLoad ''/app/.ksonnet/registries/incubator/registry.yaml'',
          EvCommitSHA1 (WithTimeout Background (10 * Second))
             \<lparr> Org = ''my-org'', Repo = ''ksonnet-parts'' \<rparr> ''dev''])"
  by (simp add: run_defs ex_defs)

theorem FetchRegistrySpec_empty_sha_no_cache_returns_nil_nil_witness:
  "\<exists>gh' tr'. FetchRegistrySpec (ex_env\<lparr> CommitSHA1 := (\<lambda>tr c r ref. ('''', None)) \<rparr>) ex_gh []
               = Return ((None, None), gh', tr')"
  using FetchRegistrySpec_empty_sha_no_cache_returns_nil_nil by blast

subsection \<open>The revision reference of a descriptor\<close>

lemma parsePaths_enterprise_refSpec:
  assumes "parsePaths uri True b base ref comps = Inr d"
  shows "refSpec d = (if length comps > b + 4 then ref else defaultGitHubBranch)"
  using assms
  by (auto simp add: parsePaths_def bind_def slice_def Let_def split: if_splits)

lemma enterpriseRefSpec_Inr:
  assumes "enterpriseRefSpec uri q = Inr r"
  shows "(len_Values q = 0 \<and> r = '''') \<or> (len_Values q = 1 \<and> map_of q ''ref'' = Some [r])"
  using assms
  by (auto simp add: enterpriseRefSpec_def split: if_splits option.splits list.splits)

lemma enterpriseRefSpec_Inl:
  assumes "2 \<le> len_Values q \<or> (len_Values q = 1 \<and> (\<forall>r. map_of q ''ref'' \<noteq> Some [r]))"
  shows "enterpriseRefSpec uri q = Inl (Err (ErrOnlyRefQuery uri))"
  using assms
  by (auto simp add: enterpriseRefSpec_def split: if_splits option.splits list.splits)

lemma parseParsed_enterprise_Inr:
  assumes ent: "\<not> HasSuffix (Host parsed) ''github.com''"
    and ok: "parseParsed up uri parsed = Inr d"
  shows "\<exists>b base ref. find_repos (Split (Path parsed) (CHR ''/'')) = Some b
           \<and> enterpriseRefSpec uri (Query parsed) = Inr ref
           \<and> parsePaths uri True b (Some base) ref (Split (Path parsed) (CHR ''/'')) = Inr d"
  using assms
  by (auto simp add: parseParsed_def bind_def Let_def split: option.splits sum.splits if_splits)

text \<open>
  C4, as the code has it. For an enterprise URI that \<open>parseGitHubURI\<close> accepts: when the
  path goes beyond the repository (more than four components after the anchor \<open>repos\<close>),
  the reference is empty when there is no query parameter and is the value of \<open>ref\<close> when
  \<open>ref\<close>, with one value, is the only query parameter; at the repository root with no
  query parameter it is the default branch. Two or more query parameters, or a single
  one that is not \<open>ref\<close> with one value, give an error. For a public URI any query
  parameter gives an error.
\<close>

theorem parseGitHubURI_refSpec_from_query:
  assumes norm: "normalizeURI uri0 = Inr uri"
    and up: "up uri = Inr parsed"
  shows "(\<not> HasSuffix (Host parsed) ''github.com'' \<longrightarrow>
            (\<forall>d. parseGitHubURI up uri0 = Inr d \<longrightarrow>
               (\<exists>b. find_repos (Split (Path parsed) (CHR ''/'')) = Some b
                  \<and> (if length (Split (Path parsed) (CHR ''/'')) > b + 4
                      then (len_Values (Query parsed) = 0 \<and> refSpec d = '''')
                           \<or> (len_Values (Query parsed) = 1
                               \<and> map_of (Query parsed) ''ref'' = Some [refSpec d])
                      else (len_Values (Query parsed) = 0 \<longrightarrow> refSpec d = defaultGitHubBranch))))
          \<and> (2 \<le> len_Values (Query parsed)
               \<or> (len_Values (Query parsed) = 1 \<and> (\<forall>r. map_of (Query parsed) ''ref'' \<noteq> Some [r]))
              \<longrightarrow> (\<exists>e. parseGitHubURI up uri0 = Inl (Err e))))
       \<and> (HasSuffix (Host parsed) ''github.com'' \<and> len_Values (Query parsed) \<noteq> 0 \<longrightarrow>
            parseGitHubURI up uri0 = Inl (Err (ErrNoQueryAllowed uri)))"
proof -
  let ?comps = "Split (Path parsed) (CHR ''/'')"
  have pg: "parseGitHubURI up uri0 = parseParsed up uri parsed"
    using norm up by (simp add: parseGitHubURI_def bind_def)
  have A: "\<exists>b. find_repos ?comps = Some b
              \<and> (if length ?comps > b + 4
                  then (len_Values (Query parsed) = 0 \<and> refSpec d = '''')
                       \<or> (len_Values (Query parsed) = 1
                           \<and> map_of (Query parsed) ''ref'' = Some [refSpec d])
                  else (len_Values (Query parsed) = 0 \<longrightarrow> refSpec d = defaultGitHubBranch))"
    if ent: "\<not> HasSuffix (Host parsed) ''github.com''" and ok: "parseParsed up uri parsed = Inr d"
    for d
  proof -
    from parseParsed_enterprise_Inr [OF ent ok] obtain b base ref where
      b: "find_repos ?comps = Some b"
      and q: "enterpriseRefSpec uri (Query parsed) = Inr ref"
      and p: "parsePaths uri True b (Some base) ref ?comps = Inr d"
      by blast
    from parsePaths_enterprise_refSpec [OF p] enterpriseRefSpec_Inr [OF q] b
    show ?thesis
      by (cases "length ?comps > b + 4") auto
  qed
  have B: "\<exists>e. parseParsed up uri parsed = Inl (Err e)"
    if ent: "\<not> HasSuffix (Host parsed) ''github.com''"
    and bad: "2 \<le> len_Values (Query parsed)
               \<or> (len_Values (Query parsed) = 1 \<and> (\<forall>r. map_of (Query parsed) ''ref'' \<noteq> Some [r]))"
    using ent enterpriseRefSpec_Inl [OF bad, of uri]
    by (auto simp add: parseParsed_def bind_def Let_def split: option.splits)
  have C: "parseParsed up uri parsed = Inl (Err (ErrNoQueryAllowed uri))"
    if "HasSuffix (Host parsed) ''github.com''" and "len_Values (Query parsed) \<noteq> 0"
    using that by (simp add: parseParsed_def bind_def Let_def)
  show ?thesis
    unfolding pg using A B C by blast
qed

theorem parseGitHubURI_refSpec_from_query_witness:
  "(\<exists>d. parseGitHubURI url_Parse
           ''https://github.my-company.com/api/v3/repos/my-org/ksonnet-parts/contents/incubator?ref=dev''
            = Inr d \<and> refSpec d = ''dev'')
   \<and> (\<exists>e. parseGitHubURI url_Parse
           ''https://github.my-company.com/api/v3/repos/my-org/ksonnet-parts/contents/incubator?ref=dev&x=1''
            = Inl (Err e))
   \<and> parseGitHubURI url_Parse ''github.com/ksonnet/parts?ref=dev''
        = Inl (Err (ErrNoQueryAllowed ''http://github.com/ksonnet/parts?ref=dev''))"
proof (intro conjI)
  let ?U = "''https://github.my-company.com/api/v3/repos/my-org/ksonnet-parts/contents/incubator?ref=dev''"
  let ?P = "\<lparr> Scheme = ''https'', Host = ''github.my-company.com'',
              Path = ''/api/v3/repos/my-org/ksonnet-parts/contents/incubator'',
              Query = [(''ref'', [''dev''])] \<rparr>"
  have norm: "normalizeURI ?U = Inr ?U"
    by (simp add: normalizeURI_def TrimSpace_def isSpace_def HasPrefix_def)
  have up: "url_Parse ?U = Inr ?P"
    by (simp add: url_Parse_def ParseQuery_def HasPrefix_def)
  have ev: "parseGitHubURI url_Parse ?U = Inr ex_hd"
    by (simp add: parse_defs ex_hd_def)
  from parseGitHubURI_refSpec_from_query [where up = url_Parse, OF norm up] ev
  have "len_Values [(''ref'', [''dev''])] = 0 \<and> refSpec ex_hd = ''''
        \<or> len_Values [(''ref'', [''dev''])] = 1 \<and> Some [''dev''] = Some [refSpec ex_hd]"
    by (simp add: HasSuffix_def)
  then have "refSpec ex_hd = ''dev''"
    by (simp add: len_Values_def)
  with ev show "\<exists>d. parseGitHubURI url_Parse ?U = Inr d \<and> refSpec d = ''dev''"
    by blast
next
  let ?U = "''https://github.my-company.com/api/v3/repos/my-org/ksonnet-parts/contents/incubator?ref=dev&x=1''"
  let ?P = "\<lparr> Scheme = ''https'', Host = ''github.my-company.com'',
              Path = ''/api/v3/repos/my-org/ksonnet-parts/contents/incubator'',
              Query = [(''ref'', [''dev'']), (''x'', [''1''])] \<rparr>"
  have norm: "normalizeURI ?U = Inr ?U"
    by (simp add: normalizeURI_def TrimSpace_def isSpace_def HasPrefix_def)
  have up: "url_Parse ?U = Inr ?P"
    by (simp add: url_Parse_def ParseQuery_def HasPrefix_def)
  from parseGitHubURI_refSpec_from_query [where up = url_Parse, OF norm up]
  show "\<exists>e. parseGitHubURI url_Parse ?U = Inl (Err e)"
    by (simp add: HasSuffix_def len_Values_def)
next
  let ?V = "''github.com/ksonnet/parts?ref=dev''"
  let ?U = "''http://github.com/ksonnet/parts?ref=dev''"
  let ?P = "\<lparr> Scheme = ''http'', Host = ''github.com'', Path = ''/ksonnet/parts'',
              Query = [(''ref'', [''dev''])] \<rparr>"
  have norm: "normalizeURI ?V = Inr ?U"
    by (simp add: normalizeURI_def TrimSpace_def isSpace_def HasPrefix_def)
  have up: "url_Parse ?U = Inr ?P"
    by (simp add: url_Parse_def ParseQuery_def HasPrefix_def)
  from parseGitHubURI_refSpec_from_query [where up = url_Parse, OF norm up]
  show "parseGitHubURI url_Parse ?V = Inl (Err (ErrNoQueryAllowed ?U))"
    by (simp add: HasSuffix_def len_Values_def)
qed

text \<open>
  The claim as the spec has it fails at the root of an enterprise repository: with no
  query parameter the reference is \<open>master\<close>, not the empty reference, and with the single
  parameter \<open>ref=dev\<close> it is \<open>master\<close> too, not \<open>dev\<close>.
\<close>

theorem enterprise_root_refSpec_counterexample:
  "parseGitHubURI url_Parse ''https://github.my-company.com/api/v3/repos/my-org/ksonnet-parts''
     = Inr \<lparr> baseURL = Some \<lparr> Scheme = ''https'', Host = ''github.my-company.com'',
                                Path = ''/api/v3/'', Query = [] \<rparr>,
             org = ''my-org'', repo = ''ksonnet-parts'', refSpec = ''master'',
             regRepoPath = '''', regSpecRepoPath = ''registry.yaml'' \<rparr>
   \<and> url_Parse ''https://github.my-company.com/api/v3/repos/my-org/ksonnet-parts''
     = Inr \<lparr> Scheme = ''https'', Host = ''github.my-company.com'',
             Path = ''/api/v3/repos/my-org/ksonnet-parts'', Query = [] \<rparr>
   \<and> parseGitHubURI url_Parse ''https://github.my-company.com/api/v3/repos/my-org/ksonnet-parts?ref=dev''
     = Inr \<lparr> baseURL = Some \<lparr> Scheme = ''https'', Host = ''github.my-company.com'',
                                Path = ''/api/v3/'', Query = [] \<rparr>,
             org = ''my-org'', repo = ''ksonnet-parts'', refSpec = ''master'',
             regRepoPath = '''', regSpecRepoPath = ''registry.yaml'' \<rparr>
   \<and> url_Parse ''https://github.my-company.com/api/v3/repos/my-org/ksonnet-parts?ref=dev''
     = Inr \<lparr> Scheme = ''https'', Host = ''github.my-company.com'',
             Path = ''/api/v3/repos/my-org/ksonnet-parts'', Query = [(''ref'', [''dev''])] \<rparr>"
  by (simp add: parse_defs)

subsection \<open>The two paths of a descriptor\<close>

text \<open>
  C9. A URI whose path ends in two slashes is accepted, and only the last empty
  component is taken off: the registry-relative path keeps a trailing slash, or the
  manifest path gets a leading slash while the registry-relative path is empty.
\<close>

theorem parseGitHubURI_double_slash_paths:
  "parseGitHubURI url_Parse
      ''https://github.my-company.com/api/v3/repos/my-org/ksonnet-parts/contents/incubator//''
     = Inr \<lparr> baseURL = Some \<lparr> Scheme = ''https'', Host = ''github.my-company.com'',
                                Path = ''/api/v3/'', Query = [] \<rparr>,
             org = ''my-org'', repo = ''ksonnet-parts'', refSpec = '''',
             regRepoPath = ''incubator/'', regSpecRepoPath = ''incubator//registry.yaml'' \<rparr>
   \<and> parseGitHubURI url_Parse
      ''https://github.my-company.com/api/v3/repos/my-org/ksonnet-parts/contents//''
     = Inr \<lparr> baseURL = Some \<lparr> Scheme = ''https'', Host = ''github.my-company.com'',
                                Path = ''/api/v3/'', Query = [] \<rparr>,
             org = ''my-org'', repo = ''ksonnet-parts'', refSpec = '''',
             regRepoPath = '''', regSpecRepoPath = ''/registry.yaml'' \<rparr>"
  by (simp add: parse_defs)

subsection \<open>Traversal: submodules and symlinks\<close>

text \<open>The loop over a listing stops at the first entry that does not return nil.\<close>

lemma resolveItems_append:
  "resolveItems n E gh lib ver f g (pre @ post) tr =
     (case resolveItems n E gh lib ver f g pre tr of
        Some (Return None, tr1) \<Rightarrow> resolveItems n E gh lib ver f g post tr1
      | other \<Rightarrow> other)"
proof (induction pre arbitrary: tr)
  case Nil
  show ?case by simp
next
  case (Cons item pre)
  show ?case
    by (simp add: Cons.IH Let_def
          split: option.splits prod.splits ret.splits)
qed

lemma resolveItems_submodule_here:
  assumes "resolveItems n E gh lib ver f g pre tr = Some (Return None, tr1)"
    and "rc_Type item = ''submodule''"
  shows "resolveItems n E gh lib ver f g (pre @ item # post) tr
           = Some (Return (Some (ErrInvalidLibrary lib)), tr1)"
  using assms by (simp add: resolveItems_append)

lemma resolveItems_dir_below:
  assumes "resolveItems (Suc m) E gh lib ver f g pre tr = Some (Return None, tr1)"
    and "rc_Type item = ''dir''"
    and "g (rc_Path item) tr1 = (None, tr2)"
    and "hdesc gh = Some d"
    and "Contents E tr2 Background (hd_Repo d) (rc_Path item) ver = (None, Some sub, None)"
    and "resolveItems m E gh lib ver f g sub
           (tr2 @ [EvContents Background (hd_Repo d) (rc_Path item) ver])
         = Some (Return (Some e), tr3)"
  shows "resolveItems (Suc m) E gh lib ver f g (pre @ item # post) tr
           = Some (Return (Some e), tr3)"
  using assms by (simp add: resolveItems_append)

lemma reaches_submodule_error:
  assumes "reaches_submodule E gh lib ver f g n items tr tr'"
  shows "resolveItems n E gh lib ver f g items tr
           = Some (Return (Some (ErrInvalidLibrary lib)), tr')"
  using assms
proof (induction rule: reaches_submodule.induct)
  case (here n pre tr tr1 item post)
  then show ?case
    by (rule resolveItems_submodule_here)
next
  case (below m pre tr tr1 item tr2 d sub tr3 post)
  then show ?case
    by (intro resolveItems_dir_below [where sub = sub and d = d and ?tr1.0 = tr1 and ?tr2.0 = tr2])
qed

text \<open>
  C6, as the code has it. When the traversal of the listing of \<open>path\<close> reaches an entry
  of type \<open>submodule\<close>, at any depth, \<open>resolveDir\<close> returns the error that names the
  library, and its trace is the trace at that entry: no call of the transport and no
  callback is made for the entries that follow, at any level. When an entry fails,
  the entries after it in its listing are not processed: the result, trace included, is
  that of the listing cut after the failing entry. An entry of type \<open>symlink\<close> is skipped:
  the result is that of the listing without it.
\<close>

theorem resolveDir_submodule_and_symlink:
  "(hdesc gh = Some d
      \<and> Contents E tr Background (hd_Repo d) path ver = (None, Some items, None)
      \<and> reaches_submodule E gh lib ver f g n items
            (tr @ [EvContents Background (hd_Repo d) path ver]) tr'
     \<longrightarrow> resolveDir (Suc n) E gh lib path ver f g tr
           = Some (Return (Some (ErrInvalidLibrary lib)), tr'))
   \<and> (resolveItems n E gh lib ver f g pre tr0 = Some (r, tr1) \<and> r \<noteq> Return None
     \<longrightarrow> resolveItems n E gh lib ver f g (pre @ post) tr0 = Some (r, tr1))
   \<and> (rc_Type item = ''symlink''
     \<longrightarrow> resolveItems n E gh lib ver f g (pre @ item # post) tr0
           = resolveItems n E gh lib ver f g (pre @ post) tr0)"
proof (intro conjI impI)
  assume a: "hdesc gh = Some d
      \<and> Contents E tr Background (hd_Repo d) path ver = (None, Some items, None)
      \<and> reaches_submodule E gh lib ver f g n items
            (tr @ [EvContents Background (hd_Repo d) path ver]) tr'"
  then have "resolveItems n E gh lib ver f g items (tr @ [EvContents Background (hd_Repo d) path ver])
               = Some (Return (Some (ErrInvalidLibrary lib)), tr')"
    by (intro reaches_submodule_error) simp
  with a show "resolveDir (Suc n) E gh lib path ver f g tr
                 = Some (Return (Some (ErrInvalidLibrary lib)), tr')"
    by simp
next
  assume "resolveItems n E gh lib ver f g pre tr0 = Some (r, tr1) \<and> r \<noteq> Return None"
  then show "resolveItems n E gh lib ver f g (pre @ post) tr0 = Some (r, tr1)"
    by (cases r) (auto simp add: resolveItems_append split: option.splits)
next
  assume "rc_Type item = ''symlink''"
  then show "resolveItems n E gh lib ver f g (pre @ item # post) tr0
               = resolveItems n E gh lib ver f g (pre @ post) tr0"
    by (simp add: resolveItems_append [of n E gh lib ver f g pre "item # post"]
          resolveItems_append [of n E gh lib ver f g pre post]
          split: option.splits prod.splits ret.splits)
qed

lemmas walk_defs =
  chrootOnFile_def chrootOnDir_def rebaseToRoot_def call_onFile_def call_onDir_def
  ex_onFile_def ex_onDir_def ex_tree_env_def ex_tree_def ex_entry_def
  TrimPrefix_def HasPrefix_def hd_Repo_def Name_def

theorem resolveDir_submodule_and_symlink_witness:
  "resolveDir (Suc (Suc 0)) ex_tree_env ex_gh ''redis'' ''incubator/redis'' ''0f3a9c''
      (chrootOnFile ex_gh ex_onFile) (chrootOnDir ex_gh ex_onDir) []
     = Some (Return (Some (ErrInvalidLibrary ''redis'')),
         [EvContents Background \<lparr> Org = ''my-org'', Repo = ''ksonnet-parts'' \<rparr>
            ''incubator/redis'' ''0f3a9c'',
          EvContents Background \<lparr> Org = ''my-org'', Repo = ''ksonnet-parts'' \<rparr>
            ''incubator/redis/parts.yaml'' ''0f3a9c'',
          EvOnFile ''redis/parts.yaml'' ''text'',
          EvOnDir ''redis/vendor'',
          EvContents Background \<lparr> Org = ''my-org'', Repo = ''ksonnet-parts'' \<rparr>
            ''incubator/redis/vendor'' ''0f3a9c''])"
proof -
  let ?R = "\<lparr> Org = ''my-org'', Repo = ''ksonnet-parts'' \<rparr>"
  let ?F = "chrootOnFile ex_gh ex_onFile"
  let ?G = "chrootOnDir ex_gh ex_onDir"
  let ?t0 = "[] @ [EvContents Background (hd_Repo ex_hd) ''incubator/redis'' ''0f3a9c'']"
  let ?t1 = "[EvContents Background ?R ''incubator/redis'' ''0f3a9c'',
              EvContents Background ?R ''incubator/redis/parts.yaml'' ''0f3a9c'',
              EvOnFile ''redis/parts.yaml'' ''text'']"
  let ?t2 = "?t1 @ [EvOnDir ''redis/vendor'']"
  let ?t3 = "?t2 @ [EvContents Background (hd_Repo ex_hd) (rc_Path (ex_entry ''dir'' ''incubator/redis/vendor'')) ''0f3a9c'']"
  have d: "hdesc ex_gh = Some ex_hd"
    by (simp add: ex_gh_def)
  have top: "Contents ex_tree_env [] Background (hd_Repo ex_hd) ''incubator/redis'' ''0f3a9c''
               = (None, Some ([ex_entry ''file'' ''incubator/redis/parts.yaml'']
                     @ ex_entry ''dir'' ''incubator/redis/vendor''
                     # [ex_entry ''file'' ''incubator/redis/README.md'']), None)"
    by (simp add: ex_tree_env_def ex_tree_def ex_env_def)
  have pre: "resolveItems (Suc 0) ex_tree_env ex_gh ''redis'' ''0f3a9c'' ?F ?G
               [ex_entry ''file'' ''incubator/redis/parts.yaml''] ?t0 = Some (Return None, ?t1)"
    by (simp add: walk_defs ex_defs)
  have dir: "?G (rc_Path (ex_entry ''dir'' ''incubator/redis/vendor'')) ?t1 = (None, ?t2)"
    by (simp add: walk_defs ex_defs)
  have sub: "Contents ex_tree_env ?t2 Background (hd_Repo ex_hd)
               (rc_Path (ex_entry ''dir'' ''incubator/redis/vendor'')) ''0f3a9c''
               = (None, Some ([ex_entry ''symlink'' ''incubator/redis/vendor/link'']
                     @ ex_entry ''submodule'' ''incubator/redis/vendor/lib''
                     # [ex_entry ''file'' ''incubator/redis/vendor/notes.txt'']), None)"
    by (simp add: ex_tree_env_def ex_tree_def ex_env_def ex_entry_def)
  have inner: "resolveItems 0 ex_tree_env ex_gh ''redis'' ''0f3a9c'' ?F ?G
                 [ex_entry ''symlink'' ''incubator/redis/vendor/link''] ?t3 = Some (Return None, ?t3)"
    by (simp add: ex_entry_def)
  have r0: "reaches_submodule ex_tree_env ex_gh ''redis'' ''0f3a9c'' ?F ?G 0
              ([ex_entry ''symlink'' ''incubator/redis/vendor/link'']
                 @ ex_entry ''submodule'' ''incubator/redis/vendor/lib''
                 # [ex_entry ''file'' ''incubator/redis/vendor/notes.txt'']) ?t3 ?t3"
    by (rule reaches_submodule.here [OF inner]) (simp add: ex_entry_def)
  have r1: "reaches_submodule ex_tree_env ex_gh ''redis'' ''0f3a9c'' ?F ?G (Suc 0)
              ([ex_entry ''file'' ''incubator/redis/parts.yaml'']
                 @ ex_entry ''dir'' ''incubator/redis/vendor''
                 # [ex_entry ''file'' ''incubator/redis/README.md'']) ?t0 ?t3"
    by (rule reaches_submodule.below [OF pre _ dir d sub r0]) (simp add: ex_entry_def)
  from resolveDir_submodule_and_symlink
         [of ex_gh ex_hd ex_tree_env "[]" "''incubator/redis''" "''0f3a9c''" _ "''redis''" ?F ?G "Suc 0" ?t3,
          THEN conjunct1, rule_format, OF conjI [OF d conjI [OF top r1]]]
  show ?thesis
    by (simp add: hd_Repo_def ex_hd_def ex_entry_def)
qed

text \<open>
  The claim as the spec has it fails when an entry before the submodule fails: the file
  is listed first, the transport does not deliver it, and \<open>resolveDir\<close> returns the error
  of the transport, not the error that names the library.
\<close>

theorem resolveDir_submodule_counterexample:
  "resolveDir (Suc 0)
      (ex_env\<lparr> Contents := (\<lambda>tr c r p ref.
          if p = ''incubator/redis''
          then (None, Some [ex_entry ''file'' ''incubator/redis/parts.yaml'',
                            ex_entry ''submodule'' ''incubator/redis/lib''], None)
          else (None, None, Some (External ''timeout''))) \<rparr>)
      ex_gh ''redis'' ''incubator/redis'' ''0f3a9c''
      (chrootOnFile ex_gh ex_onFile) (chrootOnDir ex_gh ex_onDir) []
     = Some (Return (Some (External ''timeout'')),
         [EvContents Background \<lparr> Org = ''my-org'', Repo = ''ksonnet-parts'' \<rparr>
            ''incubator/redis'' ''0f3a9c'',
          EvContents Background \<lparr> Org = ''my-org'', Repo = ''ksonnet-parts'' \<rparr>
            ''incubator/redis/parts.yaml'' ''0f3a9c''])
   \<and> External ''timeout'' \<noteq> ErrInvalidLibrary ''redis''"
  by (simp add: walk_defs ex_defs)


subsection \<open>The contexts of the network calls\<close>



















end
